theory Spec2Isabelle
  imports Complex_Main "HOL-Library.AList" "HOL-Library.Char_ord" "HOL-Library.List_Lexorder"
    "HOL-Library.Sublist"
begin

section \<open>Values, exceptions and sinks\<close>

text \<open>
  The exceptions that \<^verbatim>\<open>Monitor/resMon.py\<close> raises, catches or lets through. An
  asynchronous interrupt is a \<open>KeyboardInterrupt\<close> raised by whichever call it lands in.
\<close>

datatype exn =
    KeyboardInterrupt
  | OSError
  | ValueError string
  | KeyError string
  | TypeError
  | AttributeError
  | NoSuchProcess
  | AccessDenied
  | UnboundLocalError string

text \<open>
  Python floats stay abstract: \<open>'f\<close> is the type of floats and the record below holds
  the float operations the program uses (\<open>float(n)\<close>, \<open>+\<close>, \<open>*\<close>, \<open><\<close>). Nothing is
  assumed about them, so every theorem holds for IEEE arithmetic as for any other.
  Python integers are unbounded: \<open>int\<close>.
\<close>

record 'f float_ops =
  f_of_int :: "int \<Rightarrow> 'f"
  f_add :: "'f \<Rightarrow> 'f \<Rightarrow> 'f"
  f_mul :: "'f \<Rightarrow> 'f \<Rightarrow> 'f"
  f_less :: "'f \<Rightarrow> 'f \<Rightarrow> bool"

text \<open>Exact arithmetic, for the scenarios with concrete numbers.\<close>

definition real_ops :: "real float_ops" where
  "real_ops = \<lparr>f_of_int = of_int, f_add = (+), f_mul = (*), f_less = (<)\<rparr>"

datatype 'f num = IntV int | FloatV 'f

text \<open>\<open>a + b\<close> and \<open>a * b\<close> on Python numbers: an int operand of a float is converted.\<close>

fun py_add :: "'f float_ops \<Rightarrow> 'f num \<Rightarrow> 'f num \<Rightarrow> 'f num" where
  "py_add fo (IntV a) (IntV b) = IntV (a + b)"
| "py_add fo (IntV a) (FloatV b) = FloatV (f_add fo (f_of_int fo a) b)"
| "py_add fo (FloatV a) (IntV b) = FloatV (f_add fo a (f_of_int fo b))"
| "py_add fo (FloatV a) (FloatV b) = FloatV (f_add fo a b)"

fun py_mul :: "'f float_ops \<Rightarrow> 'f num \<Rightarrow> 'f num \<Rightarrow> 'f num" where
  "py_mul fo (IntV a) (IntV b) = IntV (a * b)"
| "py_mul fo (IntV a) (FloatV b) = FloatV (f_mul fo (f_of_int fo a) b)"
| "py_mul fo (FloatV a) (IntV b) = FloatV (f_mul fo a (f_of_int fo b))"
| "py_mul fo (FloatV a) (FloatV b) = FloatV (f_mul fo a b)"

text \<open>\<open>x >> 20\<close> on a Python int: floor division by \<open>2 ^ 20\<close>, also below zero.\<close>

definition shr20 :: "int \<Rightarrow> int" where
  "shr20 x = drop_bit 20 x"

text \<open>
  A line of output is kept as the list of its fields, in order: the program writes
  \<open>', '.join\<close> of their \<open>str\<close>. A header is a row of names.
\<close>

datatype 'f cell = Num "'f num" | Str string

type_synonym 'f row = "'f cell list"

definition icell :: "int \<Rightarrow> 'f cell" where
  "icell n = Num (IntV n)"

definition fcell :: "'f \<Rightarrow> 'f cell" where
  "fcell x = Num (FloatV x)"

text \<open>\<open>', '.join(xs)\<close> between other fields: no element still leaves one empty field.\<close>

definition joined :: "'f row \<Rightarrow> 'f row" where
  "joined xs = (if xs = [] then [Str ''''] else xs)"

text \<open>\<open>str(n)\<close> for \<open>n\<close> in \<open>range(...)\<close>.\<close>

fun str_nat :: "nat \<Rightarrow> string" where
  "str_nat n =
     (if n < 10 then [char_of (48 + n)] else str_nat (n div 10) @ [char_of (48 + n mod 10)])"

declare str_nat.simps [simp del]

text \<open>
  A sink: \<open>sys.stdout\<close> or a file opened for writing, the rows written to it so far,
  and whether \<open>close()\<close> has been called on it.
\<close>

datatype dest = Stdout | File string

record 'f sink =
  dest :: dest
  written :: "'f row list"
  closed :: bool

definition new_sink :: "dest \<Rightarrow> 'f sink" where
  "new_sink d = \<lparr>dest = d, written = [], closed = False\<rparr>"

text \<open>
  \<open>f.write(line + '\n')\<close>. The environment decides whether the write raises (disk full,
  an interrupt); a write to a closed file raises \<open>ValueError\<close>.
\<close>

definition sink_write :: "exn option \<Rightarrow> 'f row \<Rightarrow> 'f sink \<Rightarrow> exn option \<times> 'f sink" where
  "sink_write fault line f =
     (if closed f then (Some (ValueError ''I/O operation on closed file''), f)
      else case fault of
        Some e \<Rightarrow> (Some e, f)
      | None \<Rightarrow> (None, f\<lparr>written := written f @ [line]\<rparr>))"

text \<open>\<open>open(outfile_name, 'w') if outfile_name else sys.stdout\<close>.\<close>

definition open_outfile :: "exn option \<Rightarrow> string option \<Rightarrow> exn + 'f sink" where
  "open_outfile fault outfile_name =
     (case outfile_name of
        None \<Rightarrow> Inr (new_sink Stdout)
      | Some name \<Rightarrow>
          if name = [] then Inr (new_sink Stdout)
          else (case fault of Some e \<Rightarrow> Inl e | None \<Rightarrow> Inr (new_sink (File name))))"

text \<open>\<open>if self.outfile is not sys.stdout: self.outfile.close()\<close>.\<close>

definition close_outfile :: "'f sink \<Rightarrow> 'f sink" where
  "close_outfile f = (if dest f \<noteq> Stdout then f\<lparr>closed := True\<rparr> else f)"

text \<open>What \<open>print\<close> has sent to the two standard streams.\<close>

record console =
  stdout :: "string list"
  stderr :: "string list"

definition print_out :: "string \<Rightarrow> console \<Rightarrow> console" where
  "print_out s con = con\<lparr>stdout := stdout con @ [s]\<rparr>"

definition print_err :: "string \<Rightarrow> console \<Rightarrow> console" where
  "print_err s con = con\<lparr>stderr := stderr con @ [s]\<rparr>"

definition empty_console :: console where
  "empty_console = \<lparr>stdout = [], stderr = []\<rparr>"

section \<open>ResMonitor\<close>

record disk_io =
  read_count :: int
  write_count :: int
  read_bytes :: int
  write_bytes :: int
  read_time :: int
  write_time :: int

record 'f svmem =
  vm_percent :: 'f
  vm_total :: int
  vm_used :: int
  vm_available :: int
  vm_free :: int

record 'f sswap =
  sw_percent :: 'f
  sw_total :: int
  sw_used :: int
  sw_free :: int

record 'f ResMonitor =
  ncores :: int
  rm_outfile :: "'f sink"
  rm_flush :: bool
  prev_disk_stat :: disk_io
  rm_starttime :: int

text \<open>
  What one \<open>ResMonitor.poll_stat\<close> call gets from outside: the readings of \<open>time\<close> and
  \<open>psutil\<close>, and the exception (if any) that taking the readings, the write or the flush
  raises.
\<close>

record 'f res_env =
  re_time :: int
  total_cpu_percent :: 'f
  percpu_percent :: "'f list"
  mem_stat :: "'f svmem"
  swap_stat :: "'f sswap"
  disk_stat :: disk_io
  re_stat_exn :: "exn option"
  re_write_exn :: "exn option"
  re_flush_exn :: "exn option"

text \<open>The header names, as \<open>_write_header\<close> lists them.\<close>

definition ResMonitor_header :: "int \<Rightarrow> string list" where
  "ResMonitor_header n =
     [''Timestamp'', ''Uptime'', ''NCPU'', ''%CPU'']
     @ (if n \<le> 0 then [''''] else map (\<lambda>i. ''%CPU'' @ str_nat i) [0..<nat n])
     @ [''%MEM'', ''mem.total.MB'', ''mem.used.MB'', ''mem.avail.MB'', ''mem.free.MB'',
        ''%SWAP'', ''swap.total.MB'', ''swap.used.MB'', ''swap.free.MB'',
        ''io.read'', ''io.write'', ''io.read.MB'', ''io.write.MB'', ''io.read.ms'',
        ''io.write.ms'']"

text \<open>The \<open>line\<close> of \<open>ResMonitor.poll_stat\<close>.\<close>

definition ResMonitor_line :: "'f float_ops \<Rightarrow> 'f res_env \<Rightarrow> 'f ResMonitor \<Rightarrow> 'f row" where
  "ResMonitor_line fo env self =
     (let timestamp = re_time env;
          uptime = timestamp - rm_starttime self;
          prev = prev_disk_stat self;
          cur = disk_stat env
      in [icell timestamp, icell uptime, icell (ncores self),
          Num (py_mul fo (FloatV (total_cpu_percent env)) (IntV (ncores self)))]
         @ joined (map fcell (percpu_percent env))
         @ [fcell (vm_percent (mem_stat env)),
            icell (shr20 (vm_total (mem_stat env))),
            icell (shr20 (vm_used (mem_stat env))),
            icell (shr20 (vm_available (mem_stat env))),
            icell (shr20 (vm_free (mem_stat env))),
            fcell (sw_percent (swap_stat env)),
            icell (shr20 (sw_total (swap_stat env))),
            icell (shr20 (sw_used (swap_stat env))),
            icell (shr20 (sw_free (swap_stat env))),
            icell (read_count cur - read_count prev),
            icell (write_count cur - write_count prev),
            icell (shr20 (read_bytes cur - read_bytes prev)),
            icell (shr20 (write_bytes cur - write_bytes prev)),
            icell (read_time cur - read_time prev),
            icell (write_time cur - write_time prev)])"

text \<open>
  \<open>ResMonitor.poll_stat\<close>: readings, the line, the write, the flush when asked for, and
  last the assignment to \<open>self.prev_disk_stat\<close>. The monitor comes back as the call
  left it, with the exception that ended the call, if one did.
\<close>

definition ResMonitor_poll_stat ::
  "'f float_ops \<Rightarrow> 'f res_env \<Rightarrow> 'f ResMonitor \<Rightarrow> exn option \<times> 'f ResMonitor" where
  "ResMonitor_poll_stat fo env self =
     (case re_stat_exn env of
        Some e \<Rightarrow> (Some e, self)
      | None \<Rightarrow>
          (case sink_write (re_write_exn env) (ResMonitor_line fo env self) (rm_outfile self) of
             (Some e, f) \<Rightarrow> (Some e, self\<lparr>rm_outfile := f\<rparr>)
           | (None, f) \<Rightarrow>
               (case (if rm_flush self then re_flush_exn env else None) of
                  Some e \<Rightarrow> (Some e, self\<lparr>rm_outfile := f\<rparr>)
                | None \<Rightarrow> (None, self\<lparr>rm_outfile := f, prev_disk_stat := disk_stat env\<rparr>))))"

text \<open>
  What \<open>ResMonitor.__init__\<close> gets from outside. \<open>psutil.cpu_count()\<close> is \<open>None\<close> when
  the count is undetermined; \<open>range(None)\<close> in \<open>_write_header\<close> then raises.
\<close>

record ri_env =
  cpu_count :: "int option"
  ri_open_exn :: "exn option"
  ri_disk_stat :: disk_io
  ri_time :: int
  ri_stat_exn :: "exn option"
  ri_write_exn :: "exn option"

definition ResMonitor_write_header :: "exn option \<Rightarrow> int option \<Rightarrow> 'f sink \<Rightarrow> exn option \<times> 'f sink" where
  "ResMonitor_write_header fault n f =
     (case n of
        None \<Rightarrow> (Some TypeError, f)
      | Some k \<Rightarrow> sink_write fault (map Str (ResMonitor_header k)) f)"

definition ResMonitor_init ::
  "ri_env \<Rightarrow> string option \<Rightarrow> bool \<Rightarrow> console \<Rightarrow> (exn + 'f ResMonitor) \<times> console" where
  "ResMonitor_init env outfile_name flush con =
     (let con1 = print_err ''Resource monitor started.'' con in
      case open_outfile (ri_open_exn env) outfile_name of
        Inl e \<Rightarrow> (Inl e, con1)
      | Inr f \<Rightarrow>
          (case ri_stat_exn env of
             Some e \<Rightarrow> (Inl e, con1)
           | None \<Rightarrow>
               (case ResMonitor_write_header (ri_write_exn env) (cpu_count env) f of
                  (Some e, f') \<Rightarrow> (Inl e, con1)
                | (None, f') \<Rightarrow>
                    (case cpu_count env of
                       None \<Rightarrow> (Inl TypeError, con1)
                     | Some n \<Rightarrow>
                         (Inr \<lparr>ncores = n, rm_outfile = f', rm_flush = flush,
                               prev_disk_stat = ri_disk_stat env, rm_starttime = ri_time env\<rparr>,
                          con1)))))"

definition ResMonitor_close :: "'f ResMonitor \<Rightarrow> console \<Rightarrow> 'f ResMonitor \<times> console" where
  "ResMonitor_close self con =
     (self\<lparr>rm_outfile := close_outfile (rm_outfile self)\<rparr>,
      print_err ''Resource monitor closed.'' con)"

section \<open>NetworkInterfaceMonitor\<close>

record net_io =
  bytes_sent :: int
  bytes_recv :: int
  packets_sent :: int
  packets_recv :: int
  errin :: int
  errout :: int
  dropin :: int
  dropout :: int

text \<open>
  \<open>nic_files\<close> is a dict in insertion order: an association list. \<open>prev_stat\<close> is the
  dict that \<open>psutil.net_io_counters(pernic=True)\<close> returned: a map from names.
\<close>

record 'f NetworkInterfaceMonitor =
  nic_files :: "(string \<times> 'f sink) list"
  nm_prev_stat :: "string \<Rightarrow> net_io option"
  nm_starttime :: int
  nm_flush :: bool

text \<open>
  What one \<open>NetworkInterfaceMonitor.poll_stat\<close> call gets from outside; the write and
  the flush of each interface's file may raise.
\<close>

record nic_env =
  ne_time :: int
  net_stat :: "string \<Rightarrow> net_io option"
  ne_stat_exn :: "exn option"
  ne_write_exn :: "string \<Rightarrow> exn option"
  ne_flush_exn :: "string \<Rightarrow> exn option"

definition NetworkInterfaceMonitor_header :: "string list" where
  "NetworkInterfaceMonitor_header =
     [''Timestamp'', ''Uptime'', ''NIC'', ''sent.MB'', ''recv.MB'', ''sent.pkts'', ''recv.pkts'',
      ''err.in'', ''err.out'', ''drop.in'', ''drop.out'']"

text \<open>The row that \<open>poll_stat\<close> writes for one interface.\<close>

definition NetworkInterfaceMonitor_line ::
  "int \<Rightarrow> int \<Rightarrow> string \<Rightarrow> net_io \<Rightarrow> net_io \<Rightarrow> 'f row" where
  "NetworkInterfaceMonitor_line timestamp uptime nic_name curr_stat prevstat =
     [icell timestamp, icell uptime, Str nic_name,
      icell (shr20 (bytes_sent curr_stat - bytes_sent prevstat)),
      icell (shr20 (bytes_recv curr_stat - bytes_recv prevstat)),
      icell (packets_sent curr_stat - packets_sent prevstat),
      icell (packets_recv curr_stat - packets_recv prevstat),
      icell (errin curr_stat - errin prevstat),
      icell (errout curr_stat - errout prevstat),
      icell (dropin curr_stat - dropin prevstat),
      icell (dropout curr_stat - dropout prevstat)]"

text \<open>
  The loop \<open>for nic, f in self.nic_files.items()\<close>: \<open>net_stat[nic]\<close> and
  \<open>self.prev_stat[nic]\<close> raise \<open>KeyError\<close> on a missing name; the files written before an
  exception keep their rows.
\<close>

fun nic_loop ::
  "nic_env \<Rightarrow> int \<Rightarrow> int \<Rightarrow> (string \<Rightarrow> net_io option) \<Rightarrow> bool \<Rightarrow> (string \<times> 'f sink) list
     \<Rightarrow> exn option \<times> (string \<times> 'f sink) list" where
  "nic_loop env timestamp uptime prev fl [] = (None, [])"
| "nic_loop env timestamp uptime prev fl ((nic_name, f) # rest) =
     (case net_stat env nic_name of
        None \<Rightarrow> (Some (KeyError nic_name), (nic_name, f) # rest)
      | Some curr_stat \<Rightarrow>
          (case prev nic_name of
             None \<Rightarrow> (Some (KeyError nic_name), (nic_name, f) # rest)
           | Some prevstat \<Rightarrow>
               (case sink_write (ne_write_exn env nic_name)
                       (NetworkInterfaceMonitor_line timestamp uptime nic_name curr_stat prevstat) f of
                  (Some e, f') \<Rightarrow> (Some e, (nic_name, f') # rest)
                | (None, f') \<Rightarrow>
                    (case (if fl then ne_flush_exn env nic_name else None) of
                       Some e \<Rightarrow> (Some e, (nic_name, f') # rest)
                     | None \<Rightarrow>
                         (case nic_loop env timestamp uptime prev fl rest of
                            (r, rest') \<Rightarrow> (r, (nic_name, f') # rest'))))))"

text \<open>\<open>NetworkInterfaceMonitor.poll_stat\<close>: the loop, then \<open>self.prev_stat = net_stat\<close>.\<close>

definition NetworkInterfaceMonitor_poll_stat ::
  "nic_env \<Rightarrow> 'f NetworkInterfaceMonitor \<Rightarrow> exn option \<times> 'f NetworkInterfaceMonitor" where
  "NetworkInterfaceMonitor_poll_stat env self =
     (case ne_stat_exn env of
        Some e \<Rightarrow> (Some e, self)
      | None \<Rightarrow>
          (let timestamp = ne_time env;
               uptime = timestamp - nm_starttime self
           in case nic_loop env timestamp uptime (nm_prev_stat self) (nm_flush self) (nic_files self) of
                (Some e, fs) \<Rightarrow> (Some e, self\<lparr>nic_files := fs\<rparr>)
              | (None, fs) \<Rightarrow> (None, self\<lparr>nic_files := fs, nm_prev_stat := net_stat env\<rparr>)))"

text \<open>
  What \<open>NetworkInterfaceMonitor.__init__\<close> gets from outside: the names that
  \<open>psutil.net_if_stats()\<close> reports, whether creating an interface's file raises, the
  counters read for the first \<open>prev_stat\<close>, the time, and the environment of the poll
  that ends the constructor.
\<close>

record ni_env =
  net_if_stats :: "string list"
  ni_open_exn :: "string \<Rightarrow> exn option"
  ni_net_stat :: "string \<Rightarrow> net_io option"
  ni_time :: int
  ni_stat_exn :: "exn option"
  ni_poll :: nic_env

text \<open>
  \<open>outfile_pattern\<close> is kept as the text before and the text after \<open>{nic}\<close>;
  \<open>pattern.format(nic=nic_name)\<close> puts the name between them.
\<close>

type_synonym pattern = "string \<times> string"

definition default_outfile_pattern :: pattern where
  "default_outfile_pattern = (''netstat.'', ''.csv'')"

definition format_nic :: "pattern \<Rightarrow> string \<Rightarrow> string" where
  "format_nic pat nic_name = fst pat @ nic_name @ snd pat"

definition create_new_logfile :: "exn option \<Rightarrow> pattern \<Rightarrow> string \<Rightarrow> exn + 'f sink" where
  "create_new_logfile fault pat nic_name =
     (case fault of
        Some e \<Rightarrow> Inl e
      | None \<Rightarrow>
          Inr \<lparr>dest = File (format_nic pat nic_name),
               written = [map Str NetworkInterfaceMonitor_header], closed = False\<rparr>)"

text \<open>
  The dict comprehension of \<open>__init__\<close>: the requested names in order, those that
  \<open>net_if_stats()\<close> does not report left out, a file created for each of the others.
\<close>

fun open_nic_files ::
  "ni_env \<Rightarrow> pattern \<Rightarrow> string list \<Rightarrow> (string \<times> 'f sink) list \<Rightarrow> exn + (string \<times> 'f sink) list" where
  "open_nic_files env pat [] d = Inr d"
| "open_nic_files env pat (nic_name # rest) d =
     (if nic_name \<in> set (net_if_stats env) then
        (case create_new_logfile (ni_open_exn env nic_name) pat nic_name of
           Inl e \<Rightarrow> Inl e
         | Inr f \<Rightarrow> open_nic_files env pat rest (AList.update nic_name f d))
      else open_nic_files env pat rest d)"

text \<open>\<open>{nic: psutil.net_io_counters(pernic=True)[nic] for nic in self.nic_files}\<close>.\<close>

fun initial_prev_stat ::
  "(string \<Rightarrow> net_io option) \<Rightarrow> string list \<Rightarrow> (string \<Rightarrow> net_io option)
     \<Rightarrow> exn + (string \<Rightarrow> net_io option)" where
  "initial_prev_stat st [] d = Inr d"
| "initial_prev_stat st (nic_name # rest) d =
     (case st nic_name of
        None \<Rightarrow> Inl (KeyError nic_name)
      | Some v \<Rightarrow> initial_prev_stat st rest (d(nic_name \<mapsto> v)))"

definition NetworkInterfaceMonitor_init ::
  "ni_env \<Rightarrow> pattern \<Rightarrow> string list option \<Rightarrow> bool \<Rightarrow> console
     \<Rightarrow> (exn + 'f NetworkInterfaceMonitor) \<times> console" where
  "NetworkInterfaceMonitor_init env pat nics fl con =
     (let con1 = print_err ''NIC monitor started.'' con in
      case open_nic_files env pat (case nics of None \<Rightarrow> [] | Some ns \<Rightarrow> ns) [] of
        Inl e \<Rightarrow> (Inl e, con1)
      | Inr files \<Rightarrow>
          if files = [] then (Inl (ValueError ''No NIC to monitor.''), con1)
          else
            (case ni_stat_exn env of
               Some e \<Rightarrow> (Inl e, con1)
             | None \<Rightarrow>
                 (case initial_prev_stat (ni_net_stat env) (map fst files) Map.empty of
                    Inl e \<Rightarrow> (Inl e, con1)
                  | Inr prev \<Rightarrow>
                      (case NetworkInterfaceMonitor_poll_stat (ni_poll env)
                              \<lparr>nic_files = files, nm_prev_stat = prev,
                               nm_starttime = ni_time env, nm_flush = fl\<rparr> of
                         (Some e, self) \<Rightarrow> (Inl e, con1)
                       | (None, self) \<Rightarrow> (Inr self, con1)))))"

definition NetworkInterfaceMonitor_close ::
  "'f NetworkInterfaceMonitor \<Rightarrow> console \<Rightarrow> 'f NetworkInterfaceMonitor \<times> console" where
  "NetworkInterfaceMonitor_close self con =
     (self\<lparr>nic_files := map (\<lambda>(nic_name, f). (nic_name, f\<lparr>closed := True\<rparr>)) (nic_files self)\<rparr>,
      print_err ''NIC monitor closed.'' con)"

section \<open>ProcessSetMonitor\<close>

text \<open>\<open>BASE_STAT\<close>, a dict in the order it is written.\<close>

definition BASE_STAT :: "(string \<times> int) list" where
  "BASE_STAT =
     [(''io.read'', 0), (''io.write'', 0), (''io.read.MB'', 0), (''io.write.MB'', 0),
      (''mem.rss.MB'', 0), (''%MEM'', 0), (''%CPU'', 0)]"

text \<open>\<open>sorted(self.BASE_STAT.keys())\<close>: strings in the order of their characters' codes.\<close>

definition sorted_keys :: "string list" where
  "sorted_keys = sort (map fst BASE_STAT)"

text \<open>What \<open>proc.io_counters()\<close> returns, as far as \<open>_stat_proc\<close> reads it.\<close>

record pio =
  pio_read_count :: int
  pio_write_count :: int
  pio_read_bytes :: int
  pio_write_bytes :: int

text \<open>
  A process as \<open>psutil.process_iter(attrs=['pid', 'name'])\<close> yields it: \<open>proc.info\<close>
  (the name is \<open>None\<close> where psutil could not read it) and what each of the four reads
  of \<open>_stat_proc\<close> returns or raises.
\<close>

record 'f proc =
  proc_pid :: int
  proc_name :: "string option"
  proc_io_counters :: "exn + pio"
  proc_memory_info_rss :: "exn + int"
  proc_memory_percent :: "exn + 'f"
  proc_cpu_percent :: "exn + 'f"

record 'f ProcessSetMonitor =
  pm_outfile :: "'f sink"
  pm_pids :: "int set"
  pm_keywords :: "string list"
  pm_flush :: bool
  pm_starttime :: int

record 'f ps_env =
  pe_time :: int
  process_iter :: "'f proc list"
  pe_stat_exn :: "exn option"
  pe_write_exn :: "exn option"
  pe_flush_exn :: "exn option"

text \<open>\<open>str.lower()\<close> on ASCII letters, and \<open>k in s\<close> on strings (a contiguous sublist).\<close>

definition lower_char :: "char \<Rightarrow> char" where
  "lower_char c = (if CHR ''A'' \<le> c \<and> c \<le> CHR ''Z'' then char_of (of_char c + (32::nat)) else c)"

definition lower :: "string \<Rightarrow> string" where
  "lower s = map lower_char s"

text \<open>The four reads inside the \<open>try\<close> of \<open>_stat_proc\<close>, in order; the first exception ends them.\<close>

definition read_stats :: "'f proc \<Rightarrow> exn + (pio \<times> int \<times> 'f \<times> 'f)" where
  "read_stats p =
     (case proc_io_counters p of
        Inl e \<Rightarrow> Inl e
      | Inr io \<Rightarrow>
          (case proc_memory_info_rss p of
             Inl e \<Rightarrow> Inl e
           | Inr mem_rss \<Rightarrow>
               (case proc_memory_percent p of
                  Inl e \<Rightarrow> Inl e
                | Inr mem_percent \<Rightarrow>
                    (case proc_cpu_percent p of
                       Inl e \<Rightarrow> Inl e
                     | Inr cpu_percent \<Rightarrow> Inr (io, mem_rss, mem_percent, cpu_percent)))))"

text \<open>The dict that \<open>_stat_proc\<close> returns, in the order it is written.\<close>

definition proc_stat_dict :: "pio \<Rightarrow> int \<Rightarrow> 'f \<Rightarrow> 'f \<Rightarrow> (string \<times> 'f num) list" where
  "proc_stat_dict io mem_rss mem_percent cpu_percent =
     [(''io.read'', IntV (pio_read_count io)),
      (''io.write'', IntV (pio_write_count io)),
      (''io.read.MB'', IntV (shr20 (pio_read_bytes io))),
      (''io.write.MB'', IntV (shr20 (pio_write_bytes io))),
      (''mem.rss.MB'', IntV (shr20 mem_rss)),
      (''%MEM'', FloatV mem_percent),
      (''%CPU'', FloatV cpu_percent)]"

text \<open>
  \<open>_stat_proc\<close>: \<open>None\<close> for a visited process and for one whose reads raise
  \<open>NoSuchProcess\<close> or \<open>AccessDenied\<close>; any other exception goes on to the caller. The
  visited set is returned as the call left it.
\<close>

definition stat_proc ::
  "'f proc \<Rightarrow> int set \<Rightarrow> (exn + (string \<times> 'f num) list option) \<times> int set" where
  "stat_proc p visited =
     (if proc_pid p \<in> visited then (Inr None, visited)
      else
        (let visited' = insert (proc_pid p) visited in
         case read_stats p of
           Inl e \<Rightarrow>
             if e = NoSuchProcess \<or> e = AccessDenied then (Inr None, visited')
             else (Inl e, visited')
         | Inr (io, mem_rss, mem_percent, cpu_percent) \<Rightarrow>
             (Inr (Some (proc_stat_dict io mem_rss mem_percent cpu_percent)), visited')))"

text \<open>
  \<open>pinfo['pid'] in self.pids or any(k in pinfo['name'].lower() for k in self.keywords)\<close>:
  the name is lowered only when a keyword is tried, and \<open>None.lower()\<close> raises.
\<close>

definition is_candidate :: "int set \<Rightarrow> string list \<Rightarrow> 'f proc \<Rightarrow> exn + bool" where
  "is_candidate pids keywords p =
     (if proc_pid p \<in> pids then Inr True
      else if keywords = [] then Inr False
      else (case proc_name p of
              None \<Rightarrow> Inl AttributeError
            | Some n \<Rightarrow> Inr (\<exists>k \<in> set keywords. sublist k (lower n))))"

text \<open>
  \<open>curr_stat\<close> is a \<open>defaultdict(int)\<close>: every key has a value, \<open>0\<close> until something is
  added. The inner loop \<open>curr_stat[key] += value\<close> over the items of \<open>proc_stat\<close>:
\<close>

definition add_stat ::
  "'f float_ops \<Rightarrow> (string \<Rightarrow> 'f num) \<Rightarrow> (string \<times> 'f num) list \<Rightarrow> (string \<Rightarrow> 'f num)" where
  "add_stat fo curr_stat proc_stat =
     foldl (\<lambda>c (key, v). c(key := py_add fo (c key) v)) curr_stat proc_stat"

text \<open>
  The loop over \<open>psutil.process_iter\<close>. The \<open>except\<close> of the loop body lets the loop go
  on after \<open>NoSuchProcess\<close> and \<open>AccessDenied\<close>; another exception ends \<open>poll_stat\<close>.
\<close>

fun proc_loop ::
  "'f float_ops \<Rightarrow> int set \<Rightarrow> string list \<Rightarrow> 'f proc list \<Rightarrow> int set \<Rightarrow> (string \<Rightarrow> 'f num)
     \<Rightarrow> exn + (int set \<times> (string \<Rightarrow> 'f num))" where
  "proc_loop fo pids keywords [] visited curr_stat = Inr (visited, curr_stat)"
| "proc_loop fo pids keywords (p # rest) visited curr_stat =
     (case is_candidate pids keywords p of
        Inl e \<Rightarrow>
          if e = NoSuchProcess \<or> e = AccessDenied
          then proc_loop fo pids keywords rest visited curr_stat
          else Inl e
      | Inr False \<Rightarrow> proc_loop fo pids keywords rest visited curr_stat
      | Inr True \<Rightarrow>
          (case stat_proc p visited of
             (Inl e, visited') \<Rightarrow>
               if e = NoSuchProcess \<or> e = AccessDenied
               then proc_loop fo pids keywords rest visited' curr_stat
               else Inl e
           | (Inr None, visited') \<Rightarrow> proc_loop fo pids keywords rest visited' curr_stat
           | (Inr (Some proc_stat), visited') \<Rightarrow>
               proc_loop fo pids keywords rest visited' (add_stat fo curr_stat proc_stat)))"

text \<open>The \<open>line\<close> of \<open>ProcessSetMonitor.poll_stat\<close>.\<close>

definition ProcessSetMonitor_line :: "int \<Rightarrow> int \<Rightarrow> (string \<Rightarrow> 'f num) \<Rightarrow> 'f row" where
  "ProcessSetMonitor_line timestamp uptime curr_stat =
     [icell timestamp, icell uptime] @ map (\<lambda>k. Num (curr_stat k)) sorted_keys"

text \<open>
  \<open>ProcessSetMonitor.poll_stat\<close>: \<open>visited\<close> starts as the empty set and \<open>curr_stat\<close> with
  every key at \<open>0\<close>, in each call.
\<close>

definition ProcessSetMonitor_poll_stat ::
  "'f float_ops \<Rightarrow> 'f ps_env \<Rightarrow> 'f ProcessSetMonitor \<Rightarrow> exn option \<times> 'f ProcessSetMonitor" where
  "ProcessSetMonitor_poll_stat fo env self =
     (case pe_stat_exn env of
        Some e \<Rightarrow> (Some e, self)
      | None \<Rightarrow>
          (let timestamp = pe_time env;
               uptime = timestamp - pm_starttime self
           in case proc_loop fo (pm_pids self) (pm_keywords self) (process_iter env) {}
                     (\<lambda>k. IntV 0) of
                Inl e \<Rightarrow> (Some e, self)
              | Inr (visited, curr_stat) \<Rightarrow>
                  (case sink_write (pe_write_exn env)
                          (ProcessSetMonitor_line timestamp uptime curr_stat) (pm_outfile self) of
                     (Some e, f) \<Rightarrow> (Some e, self\<lparr>pm_outfile := f\<rparr>)
                   | (None, f) \<Rightarrow>
                       (case (if pm_flush self then pe_flush_exn env else None) of
                          Some e \<Rightarrow> (Some e, self\<lparr>pm_outfile := f\<rparr>)
                        | None \<Rightarrow> (None, self\<lparr>pm_outfile := f\<rparr>)))))"

text \<open>
  What \<open>ProcessSetMonitor.__init__\<close> gets from outside: whether \<open>open\<close> and the write
  of the header raise, the time, and the environment of the poll that ends the
  constructor.
\<close>

record 'f pi_env =
  pi_open_exn :: "exn option"
  pi_write_exn :: "exn option"
  pi_time :: int
  pi_poll :: "'f ps_env"

definition ProcessSetMonitor_header :: "string list" where
  "ProcessSetMonitor_header = [''Timestamp'', ''Uptime''] @ sorted_keys"

definition ProcessSetMonitor_init ::
  "'f float_ops \<Rightarrow> 'f pi_env \<Rightarrow> string list \<Rightarrow> int set \<Rightarrow> string option \<Rightarrow> bool \<Rightarrow> console
     \<Rightarrow> (exn + 'f ProcessSetMonitor) \<times> console" where
  "ProcessSetMonitor_init fo env keywords pids outfile_name fl con =
     (let con1 = print_err ''ProcessSet monitor started.'' con in
      case open_outfile (pi_open_exn env) outfile_name of
        Inl e \<Rightarrow> (Inl e, con1)
      | Inr f \<Rightarrow>
          (case sink_write (pi_write_exn env) (map Str ProcessSetMonitor_header) f of
             (Some e, f') \<Rightarrow> (Inl e, con1)
           | (None, f') \<Rightarrow>
               (case ProcessSetMonitor_poll_stat fo (pi_poll env)
                       \<lparr>pm_outfile = f', pm_pids = pids, pm_keywords = keywords,
                        pm_flush = fl, pm_starttime = pi_time env\<rparr> of
                  (Some e, self) \<Rightarrow> (Inl e, con1)
                | (None, self) \<Rightarrow> (Inr self, con1))))"

definition ProcessSetMonitor_close ::
  "'f ProcessSetMonitor \<Rightarrow> console \<Rightarrow> 'f ProcessSetMonitor \<times> console" where
  "ProcessSetMonitor_close self con =
     (self\<lparr>pm_outfile := close_outfile (pm_outfile self)\<rparr>,
      print_err ''ProcessSet monitor closed.'' con)"

section \<open>The scheduler and main\<close>

text \<open>
  \<open>sched.scheduler\<close> is Python's library, modelled by what it documents: \<open>enterabs\<close>
  queues an event for an absolute time, \<open>run\<close> waits for and fires the queued events one
  after the other, in the order of their times, events of the same time in the order of
  their priorities (the lower number first), and returns when the queue is empty. An
  exception of an action leaves \<open>run\<close>.
\<close>

datatype action = ResMonitor_poll | NetworkInterfaceMonitor_poll | ProcessSetMonitor_poll

record 'f event =
  ev_time :: 'f
  ev_priority :: int
  ev_action :: action

text \<open>\<open>(time, priority)\<close> of one event below that of another, as Python compares tuples.\<close>

definition event_before :: "'f float_ops \<Rightarrow> 'f event \<Rightarrow> 'f event \<Rightarrow> bool" where
  "event_before fo a b =
     (if ev_time a = ev_time b then ev_priority a < ev_priority b
      else f_less fo (ev_time a) (ev_time b))"

text \<open>The queue is kept in firing order; among equals the event entered first stays first.\<close>

fun enterabs :: "'f float_ops \<Rightarrow> 'f event \<Rightarrow> 'f event list \<Rightarrow> 'f event list" where
  "enterabs fo e [] = [e]"
| "enterabs fo e (x # q) = (if event_before fo e x then e # x # q else x # enterabs fo e q)"

text \<open>
  The parsed command line, and the local variables of \<open>main\<close>: \<open>None\<close> is a variable that
  no assignment has reached. \<open>nm\<close> and \<open>pm\<close>, once assigned, hold a monitor or Python's
  \<open>None\<close>. The scheduler object is kept as the events that \<open>main\<close> has entered into it so
  far, turn after turn, the events of a turn in the order of its queue; the queue itself
  is empty between two turns.
\<close>

record args =
  arg_ps_pids :: "int list option"
  arg_ps_outfile :: string
  arg_nic :: "string list option"
  arg_outfile :: "string option"
  arg_flush :: bool
  arg_delay :: int

record 'f locals =
  var_scheduler :: "'f event list option"
  var_rm :: "'f ResMonitor option"
  var_enable_nic_mon :: "bool option"
  var_nm :: "'f NetworkInterfaceMonitor option option"
  var_enable_ps_mon :: "bool option"
  var_pm :: "'f ProcessSetMonitor option option"

definition unbound :: "'f locals" where
  "unbound = \<lparr>var_scheduler = None, var_rm = None, var_enable_nic_mon = None, var_nm = None,
     var_enable_ps_mon = None, var_pm = None\<rparr>"

text \<open>The three monitors while the loop runs, all variables assigned.\<close>

record 'f monitors =
  m_rm :: "'f ResMonitor"
  m_nm :: "'f NetworkInterfaceMonitor option"
  m_pm :: "'f ProcessSetMonitor option"

text \<open>
  What one turn of the loop gets from outside: the environment of each poll, and the
  exception (an interrupt) that may end the scheduler's wait for the fire time.
\<close>

record 'f tick_env =
  te_res :: "'f res_env"
  te_nic :: nic_env
  te_ps :: "'f ps_env"
  te_sleep_exn :: "exn option"

text \<open>
  What \<open>main\<close> gets from outside: whether \<open>nice\<close> raises in \<open>chprio\<close>, the environments
  of the three constructors, \<open>time.time()\<close> before the loop, and the turns of the loop
  that are observed. The loop has no exit of its own: when the observed turns have all
  completed, it is still running.
\<close>

record 'f main_env =
  me_chprio_exn :: "exn option"
  me_rm :: ri_env
  me_nm :: ni_env
  me_pm :: "'f pi_env"
  me_starttime :: "exn + 'f"
  me_ticks :: "'f tick_env list"

text \<open>\<open>chprio\<close>: \<open>except Exception\<close> does not catch \<open>KeyboardInterrupt\<close>.\<close>

definition chprio :: "exn option \<Rightarrow> console \<Rightarrow> exn option \<times> console" where
  "chprio fault con =
     (case fault of
        None \<Rightarrow> (None, con)
      | Some e \<Rightarrow>
          if e = KeyboardInterrupt then (Some e, con)
          else (None, print_err ''Warning: failed to elevate priority!'' con))"

text \<open>An event fires: \<open>action(*argument)\<close>, the poll of the monitor bound when it was entered.\<close>

definition fire ::
  "'f float_ops \<Rightarrow> 'f tick_env \<Rightarrow> action \<Rightarrow> 'f monitors \<Rightarrow> exn option \<times> 'f monitors" where
  "fire fo te a ms =
     (case a of
        ResMonitor_poll \<Rightarrow>
          (case ResMonitor_poll_stat fo (te_res te) (m_rm ms) of
             (r, rm') \<Rightarrow> (r, ms\<lparr>m_rm := rm'\<rparr>))
      | NetworkInterfaceMonitor_poll \<Rightarrow>
          (case m_nm ms of
             None \<Rightarrow> (Some AttributeError, ms)
           | Some nm \<Rightarrow>
               (case NetworkInterfaceMonitor_poll_stat (te_nic te) nm of
                  (r, nm') \<Rightarrow> (r, ms\<lparr>m_nm := Some nm'\<rparr>)))
      | ProcessSetMonitor_poll \<Rightarrow>
          (case m_pm ms of
             None \<Rightarrow> (Some AttributeError, ms)
           | Some pm \<Rightarrow>
               (case ProcessSetMonitor_poll_stat fo (te_ps te) pm of
                  (r, pm') \<Rightarrow> (r, ms\<lparr>m_pm := Some pm'\<rparr>))))"

fun run_events ::
  "'f float_ops \<Rightarrow> 'f tick_env \<Rightarrow> 'f event list \<Rightarrow> 'f monitors \<Rightarrow> exn option \<times> 'f monitors" where
  "run_events fo te [] ms = (None, ms)"
| "run_events fo te (e # q) ms =
     (case fire fo te (ev_action e) ms of
        (Some x, ms') \<Rightarrow> (Some x, ms')
      | (None, ms') \<Rightarrow> run_events fo te q ms')"

text \<open>\<open>scheduler.run()\<close>.\<close>

definition scheduler_run ::
  "'f float_ops \<Rightarrow> 'f tick_env \<Rightarrow> 'f event list \<Rightarrow> 'f monitors \<Rightarrow> exn option \<times> 'f monitors" where
  "scheduler_run fo te q ms =
     (case te_sleep_exn te of
        Some e \<Rightarrow> (Some e, ms)
      | None \<Rightarrow> run_events fo te q ms)"

text \<open>
  The queue after the \<open>enterabs\<close> calls of one turn of the loop; \<open>run\<close> has emptied it
  before the turn begins.
\<close>

definition tick_events ::
  "'f float_ops \<Rightarrow> 'f \<Rightarrow> int \<Rightarrow> int \<Rightarrow> bool \<Rightarrow> bool \<Rightarrow> 'f event list" where
  "tick_events fo starttime i delay enable_nic_mon enable_ps_mon =
     (let q1 = enterabs fo
                 \<lparr>ev_time = f_add fo starttime (f_of_int fo (i * delay)), ev_priority = 2,
                  ev_action = ResMonitor_poll\<rparr> [];
          q2 = (if enable_nic_mon
                then enterabs fo
                       \<lparr>ev_time = f_add fo starttime (f_of_int fo (i * delay)), ev_priority = 1,
                        ev_action = NetworkInterfaceMonitor_poll\<rparr> q1
                else q1)
      in if enable_ps_mon
         then enterabs fo
                \<lparr>ev_time = f_add fo starttime (f_of_int fo (i * delay)), ev_priority = 0,
                 ev_action = ProcessSetMonitor_poll\<rparr> q2
         else q2)"

text \<open>
  \<open>while True\<close>, for the observed turns: the exception that ended the loop (\<open>None\<close>
  while it is still running), \<open>i\<close>, the monitors, and the scheduler: the events entered
  before the loop came to this turn, and after them the events of each turn, as the
  turn entered them and then ran the scheduler.
\<close>

fun main_loop ::
  "'f float_ops \<Rightarrow> int \<Rightarrow> 'f \<Rightarrow> bool \<Rightarrow> bool \<Rightarrow> 'f tick_env list \<Rightarrow> int \<Rightarrow> 'f monitors
     \<Rightarrow> 'f event list \<Rightarrow> exn option \<times> int \<times> 'f monitors \<times> 'f event list" where
  "main_loop fo delay starttime enable_nic_mon enable_ps_mon [] i ms scheduler =
     (None, i, ms, scheduler)"
| "main_loop fo delay starttime enable_nic_mon enable_ps_mon (te # rest) i ms scheduler =
     (let q = tick_events fo starttime i delay enable_nic_mon enable_ps_mon in
      case scheduler_run fo te q ms of
        (Some e, ms') \<Rightarrow> (Some e, i, ms', scheduler @ q)
      | (None, ms') \<Rightarrow>
          main_loop fo delay starttime enable_nic_mon enable_ps_mon rest (i + 1) ms'
            (scheduler @ q))"

text \<open>\<open>set(args.ps_pids) if args.ps_pids else set()\<close>.\<close>

definition ps_pids_set :: "args \<Rightarrow> int set" where
  "ps_pids_set a = (case arg_ps_pids a of None \<Rightarrow> {} | Some l \<Rightarrow> set l)"

definition bind_monitors :: "'f locals \<Rightarrow> 'f monitors \<Rightarrow> 'f locals" where
  "bind_monitors L ms = L\<lparr>var_rm := Some (m_rm ms), var_nm := Some (m_nm ms), var_pm := Some (m_pm ms)\<rparr>"

text \<open>
  The body of the \<open>try\<close> of \<open>main\<close>: the exception that left it (\<open>None\<close> while the loop is
  still running), the local variables as it left them, and the console.
\<close>

definition main_try ::
  "'f float_ops \<Rightarrow> 'f main_env \<Rightarrow> args \<Rightarrow> console \<Rightarrow> exn option \<times> 'f locals \<times> console" where
  "main_try fo env a con =
     (case chprio (me_chprio_exn env) con of
        (Some e, con0) \<Rightarrow> (Some e, unbound, con0)
      | (None, con0) \<Rightarrow>
     (let L0 = unbound\<lparr>var_scheduler := Some []\<rparr> in
      case ResMonitor_init (me_rm env) (arg_outfile a) (arg_flush a) con0 of
        (Inl e, con1) \<Rightarrow> (Some e, L0, con1)
      | (Inr rm, con1) \<Rightarrow>
     (let enable_nic_mon = (arg_nic a \<noteq> None);
          L1 = L0\<lparr>var_rm := Some rm, var_enable_nic_mon := Some enable_nic_mon\<rparr>
      in
      case (if enable_nic_mon
            then (case NetworkInterfaceMonitor_init (me_nm env) default_outfile_pattern
                         (arg_nic a) (arg_flush a) con1 of
                    (Inl e, c) \<Rightarrow> (Inl e, c)
                  | (Inr m, c) \<Rightarrow> (Inr (Some m), c))
            else (Inr None, con1)) of
        (Inl e, con2) \<Rightarrow> (Some e, L1, con2)
      | (Inr nm, con2) \<Rightarrow>
     (let enable_ps_mon = (card (ps_pids_set a) > 0);
          L2 = L1\<lparr>var_nm := Some nm, var_enable_ps_mon := Some enable_ps_mon\<rparr>
      in
      case (if enable_ps_mon
            then (case ProcessSetMonitor_init fo (me_pm env) [] (ps_pids_set a)
                         (Some (arg_ps_outfile a)) (arg_flush a) con2 of
                    (Inl e, c) \<Rightarrow> (Inl e, c)
                  | (Inr m, c) \<Rightarrow> (Inr (Some m), c))
            else (Inr None, con2)) of
        (Inl e, con3) \<Rightarrow> (Some e, L2, con3)
      | (Inr pm, con3) \<Rightarrow>
     (let L3 = L2\<lparr>var_pm := Some pm\<rparr> in
      case me_starttime env of
        Inl e \<Rightarrow> (Some e, L3, con3)
      | Inr starttime \<Rightarrow>
          (case main_loop fo (arg_delay a) starttime enable_nic_mon enable_ps_mon (me_ticks env) 1
                  \<lparr>m_rm = rm, m_nm = nm, m_pm = pm\<rparr> [] of
             (r, i, ms, scheduler) \<Rightarrow>
               (r, (bind_monitors L3 ms)\<lparr>var_scheduler := Some scheduler\<rparr>, con3)))))))"

text \<open>
  The \<open>finally\<close> block: reading a variable that no assignment has reached raises
  \<open>UnboundLocalError\<close>, and the block ends there.
\<close>

definition main_finally :: "'f locals \<Rightarrow> console \<Rightarrow> exn option \<times> 'f locals \<times> console" where
  "main_finally L con =
     (case var_rm L of
        None \<Rightarrow> (Some (UnboundLocalError ''rm''), L, con)
      | Some rm \<Rightarrow>
     (case ResMonitor_close rm con of (rm', con1) \<Rightarrow>
     (let L1 = L\<lparr>var_rm := Some rm'\<rparr> in
      case var_enable_nic_mon L1 of
        None \<Rightarrow> (Some (UnboundLocalError ''enable_nic_mon''), L1, con1)
      | Some enable_nic_mon \<Rightarrow>
     (case (if enable_nic_mon
            then (case var_nm L1 of
                    None \<Rightarrow> (Some (UnboundLocalError ''nm''), L1, con1)
                  | Some None \<Rightarrow> (Some AttributeError, L1, con1)
                  | Some (Some nm) \<Rightarrow>
                      (case NetworkInterfaceMonitor_close nm con1 of
                         (nm', c) \<Rightarrow> (None, L1\<lparr>var_nm := Some (Some nm')\<rparr>, c)))
            else (None, L1, con1)) of
        (Some e, L2, con2) \<Rightarrow> (Some e, L2, con2)
      | (None, L2, con2) \<Rightarrow>
     (case var_enable_ps_mon L2 of
        None \<Rightarrow> (Some (UnboundLocalError ''enable_ps_mon''), L2, con2)
      | Some enable_ps_mon \<Rightarrow>
          if enable_ps_mon
          then (case var_pm L2 of
                  None \<Rightarrow> (Some (UnboundLocalError ''pm''), L2, con2)
                | Some None \<Rightarrow> (Some AttributeError, L2, con2)
                | Some (Some pm) \<Rightarrow>
                    (case ProcessSetMonitor_close pm con2 of
                       (pm', c) \<Rightarrow> (None, L2\<lparr>var_pm := Some (Some pm')\<rparr>, c)))
          else (None, L2, con2))))))"

text \<open>
  How the process ends: still in the loop after the observed turns, a return from
  \<open>main\<close> (exit status 0), or an exception that nothing catches (a traceback and a
  failure status).
\<close>

datatype ending = Running | Exit0 | Traceback exn

record 'f result =
  ending :: ending
  final_locals :: "'f locals"
  final_console :: console

text \<open>
  \<open>main\<close> from the \<open>try\<close> on: \<open>except KeyboardInterrupt\<close> prints the notice and ends the
  exception; the \<open>finally\<close> block runs on every way out, and an exception of its own
  replaces the one in flight.
\<close>

definition main :: "'f float_ops \<Rightarrow> 'f main_env \<Rightarrow> args \<Rightarrow> 'f result" where
  "main fo env a =
     (case main_try fo env a empty_console of
        (None, L, con) \<Rightarrow> \<lparr>ending = Running, final_locals = L, final_console = con\<rparr>
      | (Some e, L, con) \<Rightarrow>
          (let con1 = (if e = KeyboardInterrupt
                       then print_out ''Monitoring interrupted. Exiting.'' con else con)
           in case main_finally L con1 of
                (Some e', L', con2) \<Rightarrow>
                  \<lparr>ending = Traceback e', final_locals = L', final_console = con2\<rparr>
              | (None, L', con2) \<Rightarrow>
                  \<lparr>ending = (if e = KeyboardInterrupt then Exit0 else Traceback e),
                   final_locals = L', final_console = con2\<rparr>))"

section \<open>Reading aids and scenarios\<close>

text \<open>The monitor after the polls of \<open>envs\<close>, one after the other.\<close>

definition ResMonitor_polls :: "'f float_ops \<Rightarrow> 'f res_env list \<Rightarrow> 'f ResMonitor \<Rightarrow> 'f ResMonitor" where
  "ResMonitor_polls fo envs s = foldl (\<lambda>s env. snd (ResMonitor_poll_stat fo env s)) s envs"

text \<open>The field of a line that stands under a name of the header.\<close>

definition row_field :: "string list \<Rightarrow> 'f row \<Rightarrow> string \<Rightarrow> 'f cell option" where
  "row_field header line name = map_of (zip header line) name"

text \<open>
  For comparison with \<open>ResMonitor_line\<close>: the six disk fields as the specification words
  them, each the counter of \<open>cur\<close> minus the counter of \<open>prev\<close>, bytes in MB.
\<close>

definition disk_delta_fields :: "disk_io \<Rightarrow> disk_io \<Rightarrow> (string \<times> int) list" where
  "disk_delta_fields prev cur =
     [(''io.read'', read_count cur - read_count prev),
      (''io.write'', write_count cur - write_count prev),
      (''io.read.MB'', shr20 (read_bytes cur - read_bytes prev)),
      (''io.write.MB'', shr20 (write_bytes cur - write_bytes prev)),
      (''io.read.ms'', read_time cur - read_time prev),
      (''io.write.ms'', write_time cur - write_time prev)]"

subsection \<open>A scenario: two cores, two polls\<close>

definition c1_prior :: disk_io where
  "c1_prior = \<lparr>read_count = 10, write_count = 5, read_bytes = 1048576, write_bytes = 0,
     read_time = 100, write_time = 0\<rparr>"

definition c1_current :: disk_io where
  "c1_current = \<lparr>read_count = 12, write_count = 5, read_bytes = 3145728, write_bytes = 0,
     read_time = 150, write_time = 0\<rparr>"

definition c1_env :: "int \<Rightarrow> disk_io \<Rightarrow> real res_env" where
  "c1_env t d = \<lparr>re_time = t, total_cpu_percent = 50, percpu_percent = [10, 20],
     mem_stat = \<lparr>vm_percent = 25, vm_total = 8589934592, vm_used = 2147483648,
       vm_available = 6442450944, vm_free = 4294967296\<rparr>,
     swap_stat = \<lparr>sw_percent = 0, sw_total = 1073741824, sw_used = 0,
       sw_free = 1073741824\<rparr>,
     disk_stat = d, re_stat_exn = None, re_write_exn = None, re_flush_exn = None\<rparr>"

definition c1_monitor :: "real ResMonitor" where
  "c1_monitor = \<lparr>ncores = 2, rm_outfile = new_sink Stdout, rm_flush = False,
     prev_disk_stat = \<lparr>read_count = 0, write_count = 0, read_bytes = 0, write_bytes = 0,
       read_time = 0, write_time = 0\<rparr>, rm_starttime = 1000\<rparr>"

definition c6_init :: ri_env where
  "c6_init = \<lparr>cpu_count = Some 2, ri_open_exn = None, ri_disk_stat = c1_prior, ri_time = 1000,
     ri_stat_exn = None, ri_write_exn = None\<rparr>"

text \<open>
  For comparison with \<open>NetworkInterfaceMonitor_line\<close>: a row whose fields, under the
  names of the header, are the interface's name and the counters of \<open>cur\<close> minus those
  of \<open>prev\<close>, bytes in MB.
\<close>

definition nic_row_ok :: "string \<Rightarrow> net_io \<Rightarrow> net_io \<Rightarrow> 'f row \<Rightarrow> bool" where
  "nic_row_ok nic_name cur prev line \<longleftrightarrow>
     row_field NetworkInterfaceMonitor_header line ''NIC'' = Some (Str nic_name)
   \<and> row_field NetworkInterfaceMonitor_header line ''sent.MB'' = Some (icell (shr20 (bytes_sent cur - bytes_sent prev)))
   \<and> row_field NetworkInterfaceMonitor_header line ''recv.MB'' = Some (icell (shr20 (bytes_recv cur - bytes_recv prev)))
   \<and> row_field NetworkInterfaceMonitor_header line ''sent.pkts'' = Some (icell (packets_sent cur - packets_sent prev))
   \<and> row_field NetworkInterfaceMonitor_header line ''recv.pkts'' = Some (icell (packets_recv cur - packets_recv prev))
   \<and> row_field NetworkInterfaceMonitor_header line ''err.in'' = Some (icell (errin cur - errin prev))
   \<and> row_field NetworkInterfaceMonitor_header line ''err.out'' = Some (icell (errout cur - errout prev))
   \<and> row_field NetworkInterfaceMonitor_header line ''drop.in'' = Some (icell (dropin cur - dropin prev))
   \<and> row_field NetworkInterfaceMonitor_header line ''drop.out'' = Some (icell (dropout cur - dropout prev))"

text \<open>A scenario: interfaces \<open>eth0\<close> and \<open>lo\<close>, and a requested \<open>wlan9\<close> that does not exist.\<close>

definition c7_prior :: net_io where
  "c7_prior = \<lparr>bytes_sent = 1048576, bytes_recv = 2097152, packets_sent = 10, packets_recv = 20,
     errin = 0, errout = 0, dropin = 0, dropout = 0\<rparr>"

definition c7_current :: net_io where
  "c7_current = \<lparr>bytes_sent = 2097152, bytes_recv = 3145728, packets_sent = 15, packets_recv = 25,
     errin = 0, errout = 0, dropin = 0, dropout = 0\<rparr>"

definition c7_lo_prior :: net_io where
  "c7_lo_prior = \<lparr>bytes_sent = 5242880, bytes_recv = 5242880, packets_sent = 100,
     packets_recv = 100, errin = 1, errout = 0, dropin = 0, dropout = 2\<rparr>"

definition c7_lo_current :: net_io where
  "c7_lo_current = \<lparr>bytes_sent = 8388608, bytes_recv = 9437184, packets_sent = 130,
     packets_recv = 140, errin = 1, errout = 0, dropin = 0, dropout = 3\<rparr>"

definition c7_poll_env :: "int \<Rightarrow> net_io \<Rightarrow> net_io \<Rightarrow> nic_env" where
  "c7_poll_env t eth0 lo = \<lparr>ne_time = t, net_stat = [''eth0'' \<mapsto> eth0, ''lo'' \<mapsto> lo],
     ne_stat_exn = None, ne_write_exn = (\<lambda>n. None), ne_flush_exn = (\<lambda>n. None)\<rparr>"

definition c7_init :: ni_env where
  "c7_init = \<lparr>net_if_stats = [''lo'', ''eth0''], ni_open_exn = (\<lambda>n. None),
     ni_net_stat = [''eth0'' \<mapsto> c7_prior, ''lo'' \<mapsto> c7_lo_prior], ni_time = 1000,
     ni_stat_exn = None, ni_poll = c7_poll_env 1000 c7_prior c7_lo_prior\<rparr>"

definition c7_monitor :: "real NetworkInterfaceMonitor" where
  "c7_monitor =
     \<lparr>nic_files =
        [(''eth0'', \<lparr>dest = File ''netstat.eth0.csv'',
            written = [map Str NetworkInterfaceMonitor_header,
                       NetworkInterfaceMonitor_line 1000 0 ''eth0'' c7_prior c7_prior],
            closed = False\<rparr>),
         (''lo'', \<lparr>dest = File ''netstat.lo.csv'',
            written = [map Str NetworkInterfaceMonitor_header,
                       NetworkInterfaceMonitor_line 1000 0 ''lo'' c7_lo_prior c7_lo_prior],
            closed = False\<rparr>)],
      nm_prev_stat = [''eth0'' \<mapsto> c7_prior, ''lo'' \<mapsto> c7_lo_prior],
      nm_starttime = 1000, nm_flush = False\<rparr>"




text \<open>
  For comparison with the loop of \<open>poll_stat\<close>, the processes a poll counts, as the
  specification words it: of the enumerated processes that match (by identifier or by
  keyword), the first of each identifier, if its reads succeed.
\<close>

definition matches :: "int set \<Rightarrow> string list \<Rightarrow> 'f proc \<Rightarrow> bool" where
  "matches pids keywords p \<longleftrightarrow> is_candidate pids keywords p = Inr True"

fun first_by_pid :: "'f proc list \<Rightarrow> int set \<Rightarrow> 'f proc list" where
  "first_by_pid [] seen = []"
| "first_by_pid (p # ps) seen =
     (if proc_pid p \<in> seen then first_by_pid ps seen
      else p # first_by_pid ps (insert (proc_pid p) seen))"

text \<open>The four reads all return; a read raises \<open>NoSuchProcess\<close> or \<open>AccessDenied\<close>.\<close>

definition readable :: "'f proc \<Rightarrow> bool" where
  "readable p \<longleftrightarrow> (case read_stats p of Inl e \<Rightarrow> False | Inr v \<Rightarrow> True)"

definition vanished :: "'f proc \<Rightarrow> bool" where
  "vanished p \<longleftrightarrow> read_stats p = Inl NoSuchProcess \<or> read_stats p = Inl AccessDenied"

definition counted :: "int set \<Rightarrow> string list \<Rightarrow> 'f proc list \<Rightarrow> 'f proc list" where
  "counted pids keywords procs = filter readable (first_by_pid (filter (matches pids keywords) procs) {})"

definition stats_of :: "'f proc \<Rightarrow> (string \<times> 'f num) list" where
  "stats_of p = (case read_stats p of Inl e \<Rightarrow> [] | Inr (io, mem_rss, mem_percent, cpu_percent) \<Rightarrow>
      proc_stat_dict io mem_rss mem_percent cpu_percent)"

text \<open>A candidate whose reads fail because it has exited or access is denied.\<close>

definition gone :: "int set \<Rightarrow> string list \<Rightarrow> 'f proc \<Rightarrow> bool" where
  "gone pids keywords p \<longleftrightarrow> matches pids keywords p \<and> vanished p"

text \<open>
  A scenario: identifier 42 and keyword \<open>python\<close>; process 42 matches both, 43 and 46 the
  keyword, 44 has exited, 46 denies access, 45 matches nothing.
\<close>

definition ps_proc :: "int \<Rightarrow> string \<Rightarrow> exn + pio \<Rightarrow> exn + int \<Rightarrow> real \<Rightarrow> real \<Rightarrow> real proc" where
  "ps_proc n nm io rss mp cp = \<lparr>proc_pid = n, proc_name = Some nm, proc_io_counters = io,
     proc_memory_info_rss = rss, proc_memory_percent = Inr mp, proc_cpu_percent = Inr cp\<rparr>"

definition c4_procs :: "real proc list" where
  "c4_procs =
     [ps_proc 42 ''Python3''
        (Inr \<lparr>pio_read_count = 3, pio_write_count = 1, pio_read_bytes = 2097152,
              pio_write_bytes = 1048576\<rparr>) (Inr 104857600) 1.5 10,
      ps_proc 44 ''PYTHON-gone'' (Inl NoSuchProcess) (Inr 0) 0 0,
      ps_proc 45 ''bash''
        (Inr \<lparr>pio_read_count = 1000, pio_write_count = 1000, pio_read_bytes = 1048576000,
              pio_write_bytes = 1048576000\<rparr>) (Inr 1048576000) 9 90,
      ps_proc 43 ''python-helper''
        (Inr \<lparr>pio_read_count = 7, pio_write_count = 2, pio_read_bytes = 0,
              pio_write_bytes = 3145728\<rparr>) (Inr 52428800) 0.5 2.5,
      ps_proc 46 ''pythond''
        (Inr \<lparr>pio_read_count = 5, pio_write_count = 5, pio_read_bytes = 0, pio_write_bytes = 0\<rparr>)
        (Inl AccessDenied) 0 0]"

definition c4_env :: "int \<Rightarrow> real proc list \<Rightarrow> real ps_env" where
  "c4_env t procs = \<lparr>pe_time = t, process_iter = procs, pe_stat_exn = None,
     pe_write_exn = None, pe_flush_exn = None\<rparr>"

definition c4_monitor :: "real ProcessSetMonitor" where
  "c4_monitor = \<lparr>pm_outfile = new_sink (File ''resprofile.csv''), pm_pids = {42},
     pm_keywords = [''python''], pm_flush = True, pm_starttime = 1000\<rparr>"

definition c4_row :: "int \<Rightarrow> real row" where
  "c4_row t = [icell t, icell (t - 1000), fcell 12.5, fcell 2, icell 10, icell 2, icell 3,
     icell 4, icell 150]"

text \<open>
  A scenario for the loop: every monitor enabled, start time 1000, delay 5; the polls
  of a turn read the clock at \<open>t\<close>.
\<close>

definition c2_tick :: "int \<Rightarrow> real tick_env" where
  "c2_tick t = \<lparr>te_res = c1_env t c1_current, te_nic = c7_poll_env t c7_current c7_lo_current,
     te_ps = c4_env t c4_procs, te_sleep_exn = None\<rparr>"

text \<open>
  A scenario for \<open>main\<close>: \<open>--ps-pids 42 --nic eth0 wlan9 lo\<close>, nothing fails, start time
  1000 and the default delay 5; three turns of the loop are observed, whose polls read
  the clock at 1009, 1013 and 1015.
\<close>

definition c2_args :: args where
  "c2_args = \<lparr>arg_ps_pids = Some [42], arg_ps_outfile = ''resprofile.csv'',
     arg_nic = Some [''eth0'', ''wlan9'', ''lo''], arg_outfile = None, arg_flush = False,
     arg_delay = 5\<rparr>"

definition c2_main_env :: "real main_env" where
  "c2_main_env = \<lparr>me_chprio_exn = None, me_rm = c6_init, me_nm = c7_init,
     me_pm = \<lparr>pi_open_exn = None, pi_write_exn = None, pi_time = 1000,
              pi_poll = c4_env 1000 c4_procs\<rparr>,
     me_starttime = Inr 1000, me_ticks = [c2_tick 1009, c2_tick 1013, c2_tick 1015]\<rparr>"

text \<open>
  A scenario: \<open>--ps-pids 42\<close>, and an interrupt that arrives while the constructor of
  the ProcessSetMonitor runs its first poll.
\<close>

definition c3_args :: args where
  "c3_args = \<lparr>arg_ps_pids = Some [42], arg_ps_outfile = ''resprofile.csv'', arg_nic = None,
     arg_outfile = None, arg_flush = False, arg_delay = 5\<rparr>"

definition c3_main_env :: "real main_env" where
  "c3_main_env = \<lparr>me_chprio_exn = None, me_rm = c6_init, me_nm = c7_init,
     me_pm = \<lparr>pi_open_exn = None, pi_write_exn = None, pi_time = 1000,
              pi_poll = (c4_env 1000 c4_procs)\<lparr>pe_stat_exn := Some KeyboardInterrupt\<rparr>\<rparr>,
     me_starttime = Inr 1000, me_ticks = [c2_tick 1005]\<rparr>"

section \<open>Properties\<close>

lemma shr20_div: "shr20 x = x div 1048576"
  by (simp add: shr20_def drop_bit_eq_div)

lemma map_of_zip_skip:
  "length a = length a' \<Longrightarrow> k \<notin> set a \<Longrightarrow> map_of (zip (a @ c) (a' @ c')) k = map_of (zip c c') k"
  by (induction a a' rule: list_induct2) auto

lemma cpu_names_percent:
  "k \<in> set (if n \<le> 0 then [''''] else map (\<lambda>i. ''%CPU'' @ str_nat i) [0..<nat n]) \<Longrightarrow> k = [] \<or> hd k = CHR ''%''"
  by (auto split: if_splits)

lemma len_joined: "int (length pc) = n \<Longrightarrow> length (if n \<le> 0 then [''''] else map (\<lambda>i. ''%CPU'' @ str_nat i) [0..<nat n]) = length (joined (map fcell pc))"
  by (auto simp: joined_def)

lemma ResMonitor_line_disk_field:
  assumes n: "int (length (percpu_percent env)) = ncores s"
      and k: "(k, v) \<in> set (disk_delta_fields (prev_disk_stat s) (disk_stat env))"
  shows "row_field (ResMonitor_header (ncores s)) (ResMonitor_line fo env s) k = Some (icell v)"
proof -
  let ?B = "if ncores s \<le> 0 then [''''] else map (\<lambda>i. ''%CPU'' @ str_nat i) [0..<nat (ncores s)]"
  have kB: "k \<notin> set ?B"
    using cpu_names_percent [of k "ncores s"] k by (auto simp: disk_delta_fields_def)
  have len: "length ?B = length (joined (map fcell (percpu_percent env)))"
    using n by (rule len_joined)
  have kA: "k \<notin> set [''Timestamp'', ''Uptime'', ''NCPU'', ''%CPU'']"
    using k by (auto simp: disk_delta_fields_def)
  show ?thesis
    unfolding row_field_def ResMonitor_header_def ResMonitor_line_def Let_def
    apply (subst map_of_zip_skip [OF _ kA])
     apply simp
    apply (subst map_of_zip_skip [OF len kB])
    using k apply (auto simp: disk_delta_fields_def)
    done
qed

lemma ResMonitor_line_cpu_field:
  "row_field (ResMonitor_header n) (ResMonitor_line fo env s) ''%CPU''
     = Some (fcell (f_mul fo (total_cpu_percent env) (f_of_int fo (ncores s))))"
  by (simp add: row_field_def ResMonitor_header_def ResMonitor_line_def Let_def fcell_def)

lemma ResMonitor_poll_stat_ok:
  assumes "ResMonitor_poll_stat fo env s = (None, s')"
  shows "written (rm_outfile s') = written (rm_outfile s) @ [ResMonitor_line fo env s]"
    and "prev_disk_stat s' = disk_stat env"
    and "ncores s' = ncores s" and "rm_starttime s' = rm_starttime s" and "rm_flush s' = rm_flush s"
  using assms
  by (auto simp: ResMonitor_poll_stat_def sink_write_def split: option.splits if_splits prod.splits)

lemma ResMonitor_poll_stat_exn:
  assumes "ResMonitor_poll_stat fo env s = (Some e, s')"
  shows "prev_disk_stat s' = prev_disk_stat s"
  using assms
  by (auto simp: ResMonitor_poll_stat_def sink_write_def split: option.splits if_splits prod.splits)

lemma ResMonitor_poll_stat_static:
  "ncores (snd (ResMonitor_poll_stat fo env s)) = ncores s"
  by (auto simp: ResMonitor_poll_stat_def sink_write_def split: option.splits if_splits prod.splits)

lemma ResMonitor_polls_ncores: "ncores (ResMonitor_polls fo envs s) = ncores s"
  unfolding ResMonitor_polls_def
  by (induction envs arbitrary: s) (simp_all add: ResMonitor_poll_stat_static)

lemma ResMonitor_init_ncores:
  "ResMonitor_init ienv name fl con = (Inr s, con') \<Longrightarrow> cpu_count ienv = Some (ncores s)"
  by (auto simp: ResMonitor_init_def Let_def split: sum.splits option.splits prod.splits)

text \<open>
  Claim C1. Take two consecutive polls of a ResMonitor, the first of which completed.
  If the second completes, it has written one more row whose disk fields, under the
  names of the header, are the counters of its own reading minus the counters of the
  reading of the first poll (bytes shifted to MB), and the retained snapshot is now the
  second reading. If the second poll raises (the readings, the write or the flush
  fail), the retained snapshot is still the first reading: it is replaced only after
  the row has been written.
\<close>

theorem ResMonitor_consecutive_polls_disk_delta:
  assumes p1: "ResMonitor_poll_stat fo env1 s0 = (None, s1)"
      and p2: "ResMonitor_poll_stat fo env2 s1 = (r, s2)"
      and n: "int (length (percpu_percent env2)) = ncores s1"
  shows "(r = None \<longrightarrow>
           (\<exists>line. written (rm_outfile s2) = written (rm_outfile s1) @ [line]
              \<and> row_field (ResMonitor_header (ncores s1)) line ''io.read''
                  = Some (icell (read_count (disk_stat env2) - read_count (disk_stat env1)))
              \<and> row_field (ResMonitor_header (ncores s1)) line ''io.write''
                  = Some (icell (write_count (disk_stat env2) - write_count (disk_stat env1)))
              \<and> row_field (ResMonitor_header (ncores s1)) line ''io.read.MB''
                  = Some (icell (shr20 (read_bytes (disk_stat env2) - read_bytes (disk_stat env1))))
              \<and> row_field (ResMonitor_header (ncores s1)) line ''io.write.MB''
                  = Some (icell (shr20 (write_bytes (disk_stat env2) - write_bytes (disk_stat env1))))
              \<and> row_field (ResMonitor_header (ncores s1)) line ''io.read.ms''
                  = Some (icell (read_time (disk_stat env2) - read_time (disk_stat env1)))
              \<and> row_field (ResMonitor_header (ncores s1)) line ''io.write.ms''
                  = Some (icell (write_time (disk_stat env2) - write_time (disk_stat env1))))
           \<and> prev_disk_stat s2 = disk_stat env2)
       \<and> (r \<noteq> None \<longrightarrow> prev_disk_stat s2 = disk_stat env1)"
proof -
  have prev: "prev_disk_stat s1 = disk_stat env1"
    using p1 by (rule ResMonitor_poll_stat_ok)
  have field: "row_field (ResMonitor_header (ncores s1)) (ResMonitor_line fo env2 s1) k = Some (icell v)"
    if "(k, v) \<in> set (disk_delta_fields (disk_stat env1) (disk_stat env2))" for k v
    using ResMonitor_line_disk_field [OF n, of k v fo] that prev by simp
  show ?thesis
  proof (cases r)
    case None
    with p2 have w: "written (rm_outfile s2) = written (rm_outfile s1) @ [ResMonitor_line fo env2 s1]"
      and d: "prev_disk_stat s2 = disk_stat env2"
      by (auto dest: ResMonitor_poll_stat_ok)
    show ?thesis
      using None w d by (simp add: field disk_delta_fields_def)
  next
    case (Some e)
    with p2 prev show ?thesis
      by (auto dest: ResMonitor_poll_stat_exn)
  qed
qed

text \<open>
  The scenario of the specification: two cores, prior and current disk snapshots as
  given, fields 2, 0, 2, 0, 50, 0.
\<close>

theorem ResMonitor_consecutive_polls_disk_delta_witness:
  "\<exists>s1 s2 line.
      ResMonitor_poll_stat real_ops (c1_env 1005 c1_prior) c1_monitor = (None, s1)
    \<and> ResMonitor_poll_stat real_ops (c1_env 1010 c1_current) s1 = (None, s2)
    \<and> written (rm_outfile s2) = written (rm_outfile s1) @ [line]
    \<and> row_field (ResMonitor_header 2) line ''io.read'' = Some (icell 2)
    \<and> row_field (ResMonitor_header 2) line ''io.write'' = Some (icell 0)
    \<and> row_field (ResMonitor_header 2) line ''io.read.MB'' = Some (icell 2)
    \<and> row_field (ResMonitor_header 2) line ''io.write.MB'' = Some (icell 0)
    \<and> row_field (ResMonitor_header 2) line ''io.read.ms'' = Some (icell 50)
    \<and> row_field (ResMonitor_header 2) line ''io.write.ms'' = Some (icell 0)
    \<and> prev_disk_stat s2 = c1_current"
proof -
  obtain s1 where p1: "ResMonitor_poll_stat real_ops (c1_env 1005 c1_prior) c1_monitor = (None, s1)"
    by (simp add: ResMonitor_poll_stat_def sink_write_def c1_env_def c1_monitor_def new_sink_def)
  obtain s2 where p2: "ResMonitor_poll_stat real_ops (c1_env 1010 c1_current) s1 = (None, s2)"
    using p1
    by (auto simp add: ResMonitor_poll_stat_def sink_write_def c1_env_def c1_monitor_def new_sink_def)
  have n: "int (length (percpu_percent (c1_env 1010 c1_current))) = ncores s1"
    using p1 by (auto simp: ResMonitor_poll_stat_def sink_write_def c1_env_def c1_monitor_def new_sink_def)
  have n2: "ncores s1 = 2"
    using p1 by (auto simp: ResMonitor_poll_stat_def sink_write_def c1_env_def c1_monitor_def new_sink_def)
  show ?thesis
    using ResMonitor_consecutive_polls_disk_delta [OF p1 p2 n] p1 p2 n2
    by (simp add: c1_env_def c1_prior_def c1_current_def shr20_div)
qed

text \<open>
  Claim C6. A ResMonitor is constructed, polled any number of times, and polled once
  more with success. The row of that poll has, under \<open>%CPU\<close>, the whole-system CPU
  percentage of that poll multiplied by the core count read at construction. The
  per-core percentages do not enter the field.
\<close>

theorem ResMonitor_cpu_field_total_times_ncores:
  assumes init: "ResMonitor_init ienv name fl con = (Inr s0, con')"
      and poll: "ResMonitor_poll_stat fo env (ResMonitor_polls fo envs s0) = (None, s')"
  shows "\<exists>n line. cpu_count ienv = Some n
           \<and> written (rm_outfile s') = written (rm_outfile (ResMonitor_polls fo envs s0)) @ [line]
           \<and> row_field (ResMonitor_header n) line ''%CPU''
               = Some (fcell (f_mul fo (total_cpu_percent env) (f_of_int fo n)))"
proof -
  let ?s = "ResMonitor_polls fo envs s0"
  have n: "cpu_count ienv = Some (ncores ?s)"
    using init by (simp add: ResMonitor_init_ncores ResMonitor_polls_ncores)
  have w: "written (rm_outfile s') = written (rm_outfile ?s) @ [ResMonitor_line fo env ?s]"
    using poll by (rule ResMonitor_poll_stat_ok)
  show ?thesis
    using n w ResMonitor_line_cpu_field [of "ncores ?s" fo env ?s] by blast
qed

lemma c6_init_eval:
  "ResMonitor_init c6_init None False empty_console =
     (Inr \<lparr>ncores = 2, rm_outfile = \<lparr>dest = Stdout, written = [map Str (ResMonitor_header 2)], closed = False\<rparr>,
           rm_flush = False, prev_disk_stat = c1_prior, rm_starttime = 1000\<rparr>,
      \<lparr>stdout = [], stderr = [''Resource monitor started.'']\<rparr>)"
  by (simp add: ResMonitor_init_def c6_init_def empty_console_def open_outfile_def new_sink_def
      print_err_def ResMonitor_write_header_def sink_write_def)

text \<open>
  With two cores, a whole-system percentage of 50 and per-core percentages 10 and 20,
  the field is 100, while the per-core percentages add up to 30.
\<close>

theorem ResMonitor_cpu_field_total_times_ncores_witness:
  "\<exists>s0 con' s' line.
      ResMonitor_init c6_init None False empty_console = (Inr s0, con')
    \<and> ResMonitor_poll_stat real_ops (c1_env 1010 c1_current)
          (ResMonitor_polls real_ops [c1_env 1005 c1_prior] s0) = (None, s')
    \<and> written (rm_outfile s')
        = written (rm_outfile (ResMonitor_polls real_ops [c1_env 1005 c1_prior] s0)) @ [line]
    \<and> row_field (ResMonitor_header 2) line ''%CPU'' = Some (fcell 100)
    \<and> Num (foldl (py_add real_ops) (IntV 0) (map FloatV (percpu_percent (c1_env 1010 c1_current))))
        = (fcell 30 :: real cell)"
proof -
  obtain s0 :: "real ResMonitor" and con' where i: "ResMonitor_init c6_init None False empty_console = (Inr s0, con')"
    using c6_init_eval by blast
  obtain s' where p: "ResMonitor_poll_stat real_ops (c1_env 1010 c1_current)
          (ResMonitor_polls real_ops [c1_env 1005 c1_prior] s0) = (None, s')"
    using i unfolding c6_init_eval
    by (auto simp: ResMonitor_polls_def ResMonitor_poll_stat_def sink_write_def c1_env_def)
  have c: "cpu_count c6_init = Some 2"
    by (simp add: c6_init_def)
  show ?thesis
    using ResMonitor_cpu_field_total_times_ncores [OF i p] i p c
    by (auto simp: c1_env_def real_ops_def fcell_def)
qed

lemma NetworkInterfaceMonitor_line_fields:
  "nic_row_ok n cur pv (NetworkInterfaceMonitor_line ts up n cur pv)"
  by (simp add: nic_row_ok_def row_field_def NetworkInterfaceMonitor_header_def NetworkInterfaceMonitor_line_def)

lemma nic_loop_ok:
  "nic_loop env ts up prev fl fs = (None, fs') \<Longrightarrow>
   list_all2 (\<lambda>(n, f) (n', f'). n' = n \<and>
      (\<exists>cur pv. net_stat env n = Some cur \<and> prev n = Some pv
         \<and> f' = f\<lparr>written := written f @ [NetworkInterfaceMonitor_line ts up n cur pv]\<rparr>)) fs fs'"
proof (induction fs arbitrary: fs')
  case Nil
  then show ?case by simp
next
  case (Cons a fs)
  obtain n f where a: "a = (n, f)" by (cases a)
  from Cons.prems obtain cur pv rest' where
    cur: "net_stat env n = Some cur" and pv: "prev n = Some pv"
    and rest: "nic_loop env ts up prev fl fs = (None, rest')"
    and fs': "fs' = (n, f\<lparr>written := written f @ [NetworkInterfaceMonitor_line ts up n cur pv]\<rparr>) # rest'"
    unfolding a
    by (auto simp: sink_write_def split: option.splits if_splits prod.splits)
  from Cons.IH [OF rest] cur pv show ?case
    unfolding a fs' by simp
qed

text \<open>
  Claim C7. In a poll of a NetworkInterfaceMonitor that completes, the file of every
  monitored interface has received one row, that of its own interface: under the names
  of the header, the interface's name and the counters that the poll read for this
  interface minus the counters retained for this same interface (bytes in MB); the
  files of the other interfaces and their counters do not enter it. The retained
  counters are then the mapping that the poll read, as a whole. In a poll that raises,
  the retained mapping is the one from before, whichever files were already written:
  the replacement is the last step, after the rows of all interfaces.
\<close>

theorem NetworkInterfaceMonitor_poll_per_interface:
  assumes "NetworkInterfaceMonitor_poll_stat env s = (r, s')"
  shows "(r = None \<longrightarrow>
            list_all2 (\<lambda>(nic_name, f) (nic_name', f'). nic_name' = nic_name \<and>
               (\<exists>cur prev line. net_stat env nic_name = Some cur \<and> nm_prev_stat s nic_name = Some prev
                  \<and> f' = f\<lparr>written := written f @ [line]\<rparr> \<and> nic_row_ok nic_name cur prev line))
              (nic_files s) (nic_files s')
          \<and> nm_prev_stat s' = net_stat env)
       \<and> (r \<noteq> None \<longrightarrow> nm_prev_stat s' = nm_prev_stat s)"
proof (cases r)
  case None
  with assms obtain fs where
    l: "nic_loop env (ne_time env) (ne_time env - nm_starttime s) (nm_prev_stat s) (nm_flush s) (nic_files s) = (None, fs)"
    and s': "s' = s\<lparr>nic_files := fs, nm_prev_stat := net_stat env\<rparr>"
    by (auto simp: NetworkInterfaceMonitor_poll_stat_def Let_def split: option.splits prod.splits)
  have "list_all2 (\<lambda>(nic_name, f) (nic_name', f'). nic_name' = nic_name \<and>
               (\<exists>cur prev line. net_stat env nic_name = Some cur \<and> nm_prev_stat s nic_name = Some prev
                  \<and> f' = f\<lparr>written := written f @ [line]\<rparr> \<and> nic_row_ok nic_name cur prev line))
              (nic_files s) fs"
    by (rule list_all2_mono [OF nic_loop_ok [OF l]]) (auto intro: NetworkInterfaceMonitor_line_fields)
  with None s' show ?thesis by simp
next
  case (Some e)
  with assms show ?thesis
    by (auto simp: NetworkInterfaceMonitor_poll_stat_def Let_def split: option.splits prod.splits)
qed


text \<open>
  The scenario of the specification for \<open>eth0\<close>, with \<open>lo\<close> beside it: each file
  receives the row of its own interface.
\<close>

theorem NetworkInterfaceMonitor_poll_per_interface_witness:
  "\<exists>s' f g.
      NetworkInterfaceMonitor_poll_stat (c7_poll_env 1005 c7_current c7_lo_current) c7_monitor
        = (None, s')
    \<and> nic_files s' = [(''eth0'', f), (''lo'', g)]
    \<and> dest f = File ''netstat.eth0.csv'' \<and> dest g = File ''netstat.lo.csv''
    \<and> length (written f) = 3 \<and> length (written g) = 3
    \<and> row_field NetworkInterfaceMonitor_header (last (written f)) ''sent.MB'' = Some (icell 1)
    \<and> row_field NetworkInterfaceMonitor_header (last (written f)) ''recv.MB'' = Some (icell 1)
    \<and> row_field NetworkInterfaceMonitor_header (last (written f)) ''sent.pkts'' = Some (icell 5)
    \<and> row_field NetworkInterfaceMonitor_header (last (written f)) ''recv.pkts'' = Some (icell 5)
    \<and> row_field NetworkInterfaceMonitor_header (last (written f)) ''err.in'' = Some (icell 0)
    \<and> row_field NetworkInterfaceMonitor_header (last (written f)) ''err.out'' = Some (icell 0)
    \<and> row_field NetworkInterfaceMonitor_header (last (written f)) ''drop.in'' = Some (icell 0)
    \<and> row_field NetworkInterfaceMonitor_header (last (written f)) ''drop.out'' = Some (icell 0)
    \<and> row_field NetworkInterfaceMonitor_header (last (written g)) ''sent.MB'' = Some (icell 3)
    \<and> row_field NetworkInterfaceMonitor_header (last (written g)) ''drop.out'' = Some (icell 1)
    \<and> nm_prev_stat s' = [''eth0'' \<mapsto> c7_current, ''lo'' \<mapsto> c7_lo_current]"
proof -
  obtain s' where p: "NetworkInterfaceMonitor_poll_stat (c7_poll_env 1005 c7_current c7_lo_current)
      c7_monitor = (None, s')"
    by (simp add: NetworkInterfaceMonitor_poll_stat_def c7_poll_env_def c7_monitor_def sink_write_def)
  from NetworkInterfaceMonitor_poll_per_interface [OF p]
  show ?thesis
    using p 
    apply (simp add: list_all2_Cons1 c7_monitor_def nic_row_ok_def)
    apply (clarsimp simp: c7_poll_env_def c7_prior_def c7_current_def c7_lo_prior_def c7_lo_current_def shr20_div)
    done
qed








lemma proc_loop_counted:
  "proc_loop fo pids kws procs visited acc = Inr (v, c) \<Longrightarrow>
   c = foldl (add_stat fo) acc
         (map stats_of (filter readable (first_by_pid (filter (matches pids kws) procs) visited)))"
proof (induction procs arbitrary: visited acc)
  case Nil
  then show ?case by simp
next
  case (Cons p procs)
  show ?case
  proof (cases "is_candidate pids kws p")
    case (Inl e)
    with Cons.prems have "proc_loop fo pids kws procs visited acc = Inr (v, c)"
      by (auto split: if_splits)
    from Cons.IH [OF this] Inl show ?thesis
      by (simp add: matches_def)
  next
    case (Inr b)
    show ?thesis
    proof (cases b)
      case False
      with Inr Cons.prems have "proc_loop fo pids kws procs visited acc = Inr (v, c)"
        by simp
      from Cons.IH [OF this] Inr False show ?thesis
        by (simp add: matches_def)
    next
      case True
      with Inr have m: "is_candidate pids kws p = Inr True" by simp
      show ?thesis
      proof (cases "proc_pid p \<in> visited")
        case seen: True
        with m Cons.prems have "proc_loop fo pids kws procs visited acc = Inr (v, c)"
          by (simp add: stat_proc_def)
        from Cons.IH [OF this] m seen show ?thesis
          by (simp add: matches_def)
      next
        case unseen: False
        show ?thesis
        proof (cases "read_stats p")
          case (Inl e)
          with m unseen Cons.prems
          have "proc_loop fo pids kws procs (insert (proc_pid p) visited) acc = Inr (v, c)"
            by (auto simp: stat_proc_def Let_def split: if_splits)
          from Cons.IH [OF this] m unseen Inl show ?thesis
            by (simp add: matches_def readable_def)
        next
          case (Inr r)
          obtain io mem_rss mem_percent cpu_percent where r: "r = (io, mem_rss, mem_percent, cpu_percent)"
            by (cases r)
          from m unseen Cons.prems Inr r
          have "proc_loop fo pids kws procs (insert (proc_pid p) visited)
                  (add_stat fo acc (proc_stat_dict io mem_rss mem_percent cpu_percent)) = Inr (v, c)"
            by (simp add: stat_proc_def Let_def)
          from Cons.IH [OF this] m unseen Inr r show ?thesis
            by (simp add: matches_def readable_def stats_of_def)
        qed
      qed
    qed
  qed
qed

lemma first_by_pid_fresh: "p \<in> set (first_by_pid ps seen) \<Longrightarrow> proc_pid p \<notin> seen"
  by (induction ps arbitrary: seen) (auto split: if_splits)

lemma first_by_pid_distinct: "distinct (map proc_pid (first_by_pid ps seen))"
  by (induction ps arbitrary: seen) (auto dest: first_by_pid_fresh)

lemma first_by_pid_subset: "set (first_by_pid ps seen) \<subseteq> set ps"
  by (induction ps arbitrary: seen) auto

lemma counted_distinct: "distinct (map proc_pid (counted pids kws procs))"
  unfolding counted_def by (rule distinct_map_filter) (rule first_by_pid_distinct)

lemma counted_subset: "set (counted pids kws procs) \<subseteq> {p \<in> set procs. matches pids kws p \<and> readable p}"
  unfolding counted_def using first_by_pid_subset [of "filter (matches pids kws) procs" "{}"] by auto

lemma sorted_keys_eq:
  "sorted_keys = [''%CPU'', ''%MEM'', ''io.read'', ''io.read.MB'', ''io.write'', ''io.write.MB'',
     ''mem.rss.MB'']"
  by code_simp

lemma ProcessSetMonitor_poll_stat_ok:
  assumes "ProcessSetMonitor_poll_stat fo env s = (None, s')"
  shows "\<exists>v c. proc_loop fo (pm_pids s) (pm_keywords s) (process_iter env) {} (\<lambda>k. IntV 0) = Inr (v, c)
     \<and> s' = s\<lparr>pm_outfile := (pm_outfile s)\<lparr>written := written (pm_outfile s)
           @ [ProcessSetMonitor_line (pe_time env) (pe_time env - pm_starttime s) c]\<rparr>\<rparr>"
  using assms
  by (auto simp: ProcessSetMonitor_poll_stat_def Let_def sink_write_def
      split: option.splits sum.splits prod.splits if_splits)

text \<open>
  Claim C4. The row of a ProcessSetMonitor poll that completes holds the metrics of the
  processes in \<open>counted\<close>, each added once to a row that starts with every metric at
  \<open>0\<close>. These processes are matching, readable processes of the enumeration, and no
  two of them have the same identifier: a process is counted at most once, whether it
  matches by identifier, by keyword or by both. The monitor's state \<open>s\<close> is arbitrary
  and holds no visited set: the set starts empty in every poll, and the poll leaves
  the identifiers and keywords of the monitor as they were.
\<close>

theorem ProcessSetMonitor_poll_counts_once:
  assumes "ProcessSetMonitor_poll_stat fo env s = (None, s')"
  shows "written (pm_outfile s')
           = written (pm_outfile s)
             @ [ProcessSetMonitor_line (pe_time env) (pe_time env - pm_starttime s)
                  (foldl (add_stat fo) (\<lambda>k. IntV 0)
                     (map stats_of (counted (pm_pids s) (pm_keywords s) (process_iter env))))]
       \<and> distinct (map proc_pid (counted (pm_pids s) (pm_keywords s) (process_iter env)))
       \<and> set (counted (pm_pids s) (pm_keywords s) (process_iter env))
           \<subseteq> {p \<in> set (process_iter env). matches (pm_pids s) (pm_keywords s) p \<and> readable p}
       \<and> pm_pids s' = pm_pids s \<and> pm_keywords s' = pm_keywords s
       \<and> pm_starttime s' = pm_starttime s"
proof -
  from ProcessSetMonitor_poll_stat_ok [OF assms] obtain v c where
    l: "proc_loop fo (pm_pids s) (pm_keywords s) (process_iter env) {} (\<lambda>k. IntV 0) = Inr (v, c)"
    and s': "s' = s\<lparr>pm_outfile := (pm_outfile s)\<lparr>written := written (pm_outfile s)
           @ [ProcessSetMonitor_line (pe_time env) (pe_time env - pm_starttime s) c]\<rparr>\<rparr>"
    by blast
  have c: "c = foldl (add_stat fo) (\<lambda>k. IntV 0)
                 (map stats_of (counted (pm_pids s) (pm_keywords s) (process_iter env)))"
    using proc_loop_counted [OF l] by (simp add: counted_def)
  show ?thesis
    using s' c counted_distinct [of "pm_pids s" "pm_keywords s" "process_iter env"]
      counted_subset [of "pm_pids s" "pm_keywords s" "process_iter env"]
    by simp
qed

lemma c4_candidates:
  "filter (matches {42} [''python'']) c4_procs = [c4_procs ! 0, c4_procs ! 1, c4_procs ! 3, c4_procs ! 4]"
  by (simp add: c4_procs_def matches_def is_candidate_def ps_proc_def lower_def lower_char_def) code_simp

lemma c4_lower:
  "lower ''Python3'' = ''python3''"
  "lower ''PYTHON-gone'' = ''python-gone''"
  "lower ''bash'' = ''bash''"
  "lower ''python-helper'' = ''python-helper''"
  "lower ''pythond'' = ''pythond''"
  by code_simp+

lemma ps_proc_sel:
  "proc_pid (ps_proc n nm io rss mp cp) = n"
  "read_stats (ps_proc n nm (Inr i) (Inr r) mp cp) = Inr (i, r, mp, cp)"
  "read_stats (ps_proc n nm (Inl e) rss mp cp) = Inl e"
  "read_stats (ps_proc n nm (Inr i) (Inl e) mp cp) = Inl e"
  by (simp_all add: ps_proc_def read_stats_def)

lemma c4_matches:
  "is_candidate {42} [''python''] (ps_proc 42 ''Python3'' a b c d) = Inr True"
  "is_candidate {42} [''python''] (ps_proc 44 ''PYTHON-gone'' a b c d) = Inr True"
  "is_candidate {42} [''python''] (ps_proc 45 ''bash'' a b c d) = Inr False"
  "is_candidate {42} [''python''] (ps_proc 43 ''python-helper'' a b c d) = Inr True"
  "is_candidate {42} [''python''] (ps_proc 46 ''pythond'' a b c d) = Inr True"
  "is_candidate {} [''python''] (ps_proc 42 ''Python3'' a b c d) = Inr True"
  by (simp_all add: is_candidate_def ps_proc_def c4_lower sublist_code prefix_code)

lemma c4_loop_eval:
  "proc_loop real_ops {42} [''python''] c4_procs {} (\<lambda>k. IntV 0)
     = Inr ({42, 43, 44, 46},
            (\<lambda>k. IntV 0)(''io.read'' := IntV 10, ''io.write'' := IntV 3, ''io.read.MB'' := IntV 2,
               ''io.write.MB'' := IntV 4, ''mem.rss.MB'' := IntV 150, ''%MEM'' := FloatV 2,
               ''%CPU'' := FloatV 12.5))"
  unfolding c4_procs_def
  apply (simp add: c4_matches stat_proc_def ps_proc_sel proc_stat_dict_def add_stat_def
      real_ops_def shr20_div)
  apply (auto simp: fun_eq_iff)
  done

lemma c4_poll_eval:
  "\<not> closed f \<Longrightarrow>
   ProcessSetMonitor_poll_stat real_ops (c4_env t c4_procs) (c4_monitor\<lparr>pm_outfile := f\<rparr>)
     = (None, c4_monitor\<lparr>pm_outfile := f\<lparr>written := written f @ [c4_row t]\<rparr>\<rparr>)"
  by (simp add: ProcessSetMonitor_poll_stat_def c4_env_def c4_monitor_def c4_loop_eval
      sink_write_def ProcessSetMonitor_line_def sorted_keys_eq c4_row_def icell_def fcell_def)

lemma c4_counted: "counted {42} [''python''] c4_procs = [c4_procs ! 0, c4_procs ! 3]"
  by (simp add: counted_def c4_procs_def matches_def c4_matches readable_def ps_proc_sel)

text \<open>
  Process 42 is in the identifier set and its lowercased name contains the keyword; it
  is counted once, in the first poll and again in the next (io.read = 3 + 7 = 10).
\<close>

theorem ProcessSetMonitor_poll_counts_once_witness:
  "\<exists>s1 s2.
      ProcessSetMonitor_poll_stat real_ops (c4_env 1005 c4_procs) c4_monitor = (None, s1)
    \<and> ProcessSetMonitor_poll_stat real_ops (c4_env 1010 c4_procs) s1 = (None, s2)
    \<and> is_candidate {42} [] (c4_procs ! 0) = Inr True
    \<and> is_candidate {} [''python''] (c4_procs ! 0) = Inr True
    \<and> map proc_pid (counted (pm_pids s1) (pm_keywords s1) c4_procs) = [42, 43]
    \<and> written (pm_outfile s2) = [c4_row 1005, c4_row 1010]
    \<and> row_field ProcessSetMonitor_header (c4_row 1010) ''io.read'' = Some (icell 10)"
proof -
  obtain s1 where p1: "ProcessSetMonitor_poll_stat real_ops (c4_env 1005 c4_procs) c4_monitor = (None, s1)"
    and s1: "s1 = c4_monitor\<lparr>pm_outfile := (new_sink (File ''resprofile.csv''))\<lparr>written := [c4_row 1005]\<rparr>\<rparr>"
    using c4_poll_eval [of "new_sink (File ''resprofile.csv'')" 1005]
    by (simp add: c4_monitor_def new_sink_def)
  obtain s2 where p2: "ProcessSetMonitor_poll_stat real_ops (c4_env 1010 c4_procs) s1 = (None, s2)"
    and s2: "written (pm_outfile s2) = [c4_row 1005, c4_row 1010]"
    using c4_poll_eval [of "(new_sink (File ''resprofile.csv''))\<lparr>written := [c4_row 1005]\<rparr>" 1010]
    unfolding s1 by (simp add: c4_monitor_def new_sink_def)
  have m: "is_candidate {42} [] (c4_procs ! 0) = Inr True"
      "is_candidate {} [''python''] (c4_procs ! 0) = Inr True"
    by (simp_all add: c4_procs_def c4_matches) (simp add: is_candidate_def ps_proc_sel)
  have f: "row_field ProcessSetMonitor_header (c4_row 1010) ''io.read'' = Some (icell 10)"
    by (simp add: row_field_def ProcessSetMonitor_header_def sorted_keys_eq c4_row_def)
  have c: "map proc_pid (counted (pm_pids s1) (pm_keywords s1) c4_procs) = [42, 43]"
    unfolding s1 by (simp add: c4_monitor_def c4_counted) (simp add: c4_procs_def ps_proc_sel)
  show ?thesis
    using ProcessSetMonitor_poll_counts_once [OF p2] p1 p2 s2 m f c
    by (intro exI [of _ s1] exI [of _ s2]) simp
qed

lemma proc_loop_skips_gone:
  assumes "distinct (map proc_pid procs)" and "G \<inter> proc_pid ` set procs = {}"
  shows "map_sum (\<lambda>e. e) snd (proc_loop fo pids kws procs (V \<union> G) acc)
       = map_sum (\<lambda>e. e) snd (proc_loop fo pids kws (filter (\<lambda>p. \<not> gone pids kws p) procs) V acc)"
  using assms
proof (induction procs arbitrary: V G acc)
  case Nil
  then show ?case by simp
next
  case (Cons p procs)
  let ?keep = "filter (\<lambda>p. \<not> gone pids kws p)"
  have d: "distinct (map proc_pid procs)" and pf: "proc_pid p \<notin> proc_pid ` set procs"
    and pG: "proc_pid p \<notin> G" and G: "G \<inter> proc_pid ` set procs = {}"
    using Cons.prems by auto
  have ih: "map_sum (\<lambda>e. e) snd (proc_loop fo pids kws procs (V' \<union> G') acc')
       = map_sum (\<lambda>e. e) snd (proc_loop fo pids kws (?keep procs) V' acc')"
    if "G' \<inter> proc_pid ` set procs = {}" for V' G' acc'
    using Cons.IH [OF d that] .
  have G': "insert (proc_pid p) G \<inter> proc_pid ` set procs = {}"
    using G pf by auto
  show ?case
  proof (cases "gone pids kws p")
    case True
    then have m: "is_candidate pids kws p = Inr True"
      and v: "read_stats p = Inl NoSuchProcess \<or> read_stats p = Inl AccessDenied"
      by (auto simp: gone_def matches_def vanished_def)
    have R: "proc_loop fo pids kws (?keep (p # procs)) V acc = proc_loop fo pids kws (?keep procs) V acc"
      using True by simp
    show ?thesis
    proof (cases "proc_pid p \<in> V")
      case True
      then have L: "proc_loop fo pids kws (p # procs) (V \<union> G) acc = proc_loop fo pids kws procs (V \<union> G) acc"
        using m by (simp add: stat_proc_def)
      show ?thesis unfolding L R by (rule ih [OF G])
    next
      case False
      then have L: "proc_loop fo pids kws (p # procs) (V \<union> G) acc
          = proc_loop fo pids kws procs (V \<union> insert (proc_pid p) G) acc"
        using m v pG by (auto simp: stat_proc_def Let_def)
      show ?thesis unfolding L R by (rule ih [OF G'])
    qed
  next
    case False
    then have R: "proc_loop fo pids kws (?keep (p # procs)) V acc = proc_loop fo pids kws (p # ?keep procs) V acc"
      by simp
    show ?thesis
    proof (cases "is_candidate pids kws p")
      case (Inl e)
      show ?thesis
      proof (cases "e = NoSuchProcess \<or> e = AccessDenied")
        case True
        with Inl have L: "proc_loop fo pids kws (p # procs) (V \<union> G) acc = proc_loop fo pids kws procs (V \<union> G) acc"
          and R': "proc_loop fo pids kws (p # ?keep procs) V acc = proc_loop fo pids kws (?keep procs) V acc"
          by auto
        show ?thesis unfolding L R R' by (rule ih [OF G])
      next
        case False
        with Inl have L: "proc_loop fo pids kws (p # procs) (V \<union> G) acc = Inl e"
          and R': "proc_loop fo pids kws (p # ?keep procs) V acc = Inl e"
          by auto
        show ?thesis unfolding L R R' ..
      qed
    next
      case (Inr b)
      show ?thesis
      proof (cases b)
        case False
        with Inr have L: "proc_loop fo pids kws (p # procs) (V \<union> G) acc = proc_loop fo pids kws procs (V \<union> G) acc"
          and R': "proc_loop fo pids kws (p # ?keep procs) V acc = proc_loop fo pids kws (?keep procs) V acc"
          by auto
        show ?thesis unfolding L R R' by (rule ih [OF G])
      next
        case True
        with Inr have m: "is_candidate pids kws p = Inr True" by simp
        show ?thesis
        proof (cases "proc_pid p \<in> V")
          case True
          with m have L: "proc_loop fo pids kws (p # procs) (V \<union> G) acc = proc_loop fo pids kws procs (V \<union> G) acc"
            and R': "proc_loop fo pids kws (p # ?keep procs) V acc = proc_loop fo pids kws (?keep procs) V acc"
            by (auto simp: stat_proc_def)
          show ?thesis unfolding L R R' by (rule ih [OF G])
        next
          case unseen: False
          show ?thesis
          proof (cases "read_stats p")
            case (Inl e)
            with m \<open>\<not> gone pids kws p\<close> have "e \<noteq> NoSuchProcess" "e \<noteq> AccessDenied"
              by (auto simp: gone_def matches_def vanished_def)
            with Inl m unseen pG have L: "proc_loop fo pids kws (p # procs) (V \<union> G) acc = Inl e"
              and R': "proc_loop fo pids kws (p # ?keep procs) V acc = Inl e"
              by (auto simp: stat_proc_def Let_def)
            show ?thesis unfolding L R R' ..
          next
            case (Inr r)
            obtain io mem_rss mem_percent cpu_percent where r: "r = (io, mem_rss, mem_percent, cpu_percent)"
              by (cases r)
            let ?acc = "add_stat fo acc (proc_stat_dict io mem_rss mem_percent cpu_percent)"
            from Inr r m unseen pG
            have L: "proc_loop fo pids kws (p # procs) (V \<union> G) acc
                = proc_loop fo pids kws procs (insert (proc_pid p) V \<union> G) ?acc"
              and R': "proc_loop fo pids kws (p # ?keep procs) V acc
                = proc_loop fo pids kws (?keep procs) (insert (proc_pid p) V) ?acc"
              by (auto simp: stat_proc_def Let_def)
            show ?thesis unfolding L R R' by (rule ih [OF G])
          qed
        qed
      qed
    qed
  qed
qed

lemma ProcessSetMonitor_poll_stat_cong:
  assumes "map_sum (\<lambda>e. e) snd (proc_loop fo (pm_pids s) (pm_keywords s) (process_iter env) {} (\<lambda>k. IntV 0))
         = map_sum (\<lambda>e. e) snd (proc_loop fo (pm_pids s) (pm_keywords s) procs {} (\<lambda>k. IntV 0))"
  shows "ProcessSetMonitor_poll_stat fo env s = ProcessSetMonitor_poll_stat fo (env\<lparr>process_iter := procs\<rparr>) s"
proof (cases "proc_loop fo (pm_pids s) (pm_keywords s) (process_iter env) {} (\<lambda>k. IntV 0)")
  case (Inl e)
  with assms have "proc_loop fo (pm_pids s) (pm_keywords s) procs {} (\<lambda>k. IntV 0) = Inl e"
    by (cases "proc_loop fo (pm_pids s) (pm_keywords s) procs {} (\<lambda>k. IntV 0)") auto
  with Inl show ?thesis
    by (simp add: ProcessSetMonitor_poll_stat_def Let_def split: option.splits)
next
  case (Inr r)
  obtain v c where r: "r = (v, c)" by (cases r)
  with Inr assms obtain v' where "proc_loop fo (pm_pids s) (pm_keywords s) procs {} (\<lambda>k. IntV 0) = Inr (v', c)"
    by (cases "proc_loop fo (pm_pids s) (pm_keywords s) procs {} (\<lambda>k. IntV 0)") auto
  with Inr r show ?thesis
    by (auto simp: ProcessSetMonitor_poll_stat_def Let_def split: option.splits prod.splits)
qed

lemma proc_loop_no_exn:
  assumes "\<forall>p \<in> set procs. is_candidate pids kws p = Inr False
             \<or> (matches pids kws p \<and> (readable p \<or> vanished p))"
  shows "\<exists>v c. proc_loop fo pids kws procs visited acc = Inr (v, c)"
  using assms
proof (induction procs arbitrary: visited acc)
  case Nil
  then show ?case by simp
next
  case (Cons p procs)
  then have ih: "\<exists>v c. proc_loop fo pids kws procs visited' acc' = Inr (v, c)" for visited' acc'
    by simp
  from Cons.prems have "is_candidate pids kws p = Inr False
             \<or> (matches pids kws p \<and> (readable p \<or> vanished p))" by simp
  then show ?case
  proof (elim disjE conjE)
    assume "is_candidate pids kws p = Inr False"
    then show ?thesis using ih by simp
  next
    assume "matches pids kws p" "readable p"
    then show ?thesis using ih
      by (auto simp: matches_def readable_def stat_proc_def Let_def split: sum.splits)
  next
    assume "matches pids kws p" "vanished p"
    then show ?thesis using ih
      by (auto simp: matches_def vanished_def stat_proc_def Let_def split: sum.splits)
  qed
qed

text \<open>
  Claim C5. When the enumeration yields each identifier once, a poll behaves exactly as
  if the candidates whose reads raise \<open>NoSuchProcess\<close> or \<open>AccessDenied\<close> were not in
  the enumeration: the same row, the same outcome. And when every enumerated process
  either does not match, or matches and is readable or fails in one of these two ways,
  and the sink accepts the row, no exception leaves \<open>poll_stat\<close>.
\<close>

theorem ProcessSetMonitor_poll_skips_vanished:
  "(distinct (map proc_pid (process_iter env)) \<longrightarrow>
      ProcessSetMonitor_poll_stat fo env s
        = ProcessSetMonitor_poll_stat fo
            (env\<lparr>process_iter :=
               filter (\<lambda>p. \<not> gone (pm_pids s) (pm_keywords s) p) (process_iter env)\<rparr>) s)
   \<and> ((\<forall>p \<in> set (process_iter env).
          is_candidate (pm_pids s) (pm_keywords s) p = Inr False
          \<or> (matches (pm_pids s) (pm_keywords s) p \<and> (readable p \<or> vanished p)))
        \<and> pe_stat_exn env = None \<and> pe_write_exn env = None \<and> \<not> closed (pm_outfile s)
        \<and> (pm_flush s \<longrightarrow> pe_flush_exn env = None)
        \<longrightarrow> fst (ProcessSetMonitor_poll_stat fo env s) = None)"
proof (intro conjI impI)
  assume "distinct (map proc_pid (process_iter env))"
  from proc_loop_skips_gone [OF this, of "{}" fo "pm_pids s" "pm_keywords s" "{}" "\<lambda>k. IntV 0"]
  show "ProcessSetMonitor_poll_stat fo env s
        = ProcessSetMonitor_poll_stat fo
            (env\<lparr>process_iter :=
               filter (\<lambda>p. \<not> gone (pm_pids s) (pm_keywords s) p) (process_iter env)\<rparr>) s"
    by (intro ProcessSetMonitor_poll_stat_cong) simp
next
  assume a: "(\<forall>p \<in> set (process_iter env).
          is_candidate (pm_pids s) (pm_keywords s) p = Inr False
          \<or> (matches (pm_pids s) (pm_keywords s) p \<and> (readable p \<or> vanished p)))
        \<and> pe_stat_exn env = None \<and> pe_write_exn env = None \<and> \<not> closed (pm_outfile s)
        \<and> (pm_flush s \<longrightarrow> pe_flush_exn env = None)"
  then have e: "pe_stat_exn env = None" "pe_write_exn env = None" "\<not> closed (pm_outfile s)"
      "pm_flush s \<longrightarrow> pe_flush_exn env = None"
    and ps: "\<forall>p \<in> set (process_iter env).
          is_candidate (pm_pids s) (pm_keywords s) p = Inr False
          \<or> (matches (pm_pids s) (pm_keywords s) p \<and> (readable p \<or> vanished p))"
    by blast+
  obtain v c where
    "proc_loop fo (pm_pids s) (pm_keywords s) (process_iter env) {} (\<lambda>k. IntV 0) = Inr (v, c)"
    using proc_loop_no_exn [OF ps, of fo "{}" "\<lambda>k. IntV 0"] by blast
  with e show "fst (ProcessSetMonitor_poll_stat fo env s) = None"
    by (simp add: ProcessSetMonitor_poll_stat_def Let_def sink_write_def)
qed

lemma c4_gone:
  "filter (\<lambda>p. \<not> gone {42} [''python''] p) c4_procs = [c4_procs ! 0, c4_procs ! 2, c4_procs ! 3]"
  by (simp add: c4_procs_def gone_def matches_def vanished_def c4_matches ps_proc_sel)

lemma c4_well_behaved:
  "\<forall>p \<in> set c4_procs. is_candidate {42} [''python''] p = Inr False
      \<or> (matches {42} [''python''] p \<and> (readable p \<or> vanished p))"
  by (simp add: c4_procs_def matches_def vanished_def readable_def c4_matches ps_proc_sel)

text \<open>
  Process 44 has exited and process 46 denies access; the row is the one of the
  enumeration without them.
\<close>

theorem ProcessSetMonitor_poll_skips_vanished_witness:
  "distinct (map proc_pid c4_procs)
   \<and> vanished (c4_procs ! 1) \<and> vanished (c4_procs ! 4)
   \<and> ProcessSetMonitor_poll_stat real_ops (c4_env 1005 c4_procs) c4_monitor
       = ProcessSetMonitor_poll_stat real_ops
           (c4_env 1005 [c4_procs ! 0, c4_procs ! 2, c4_procs ! 3]) c4_monitor
   \<and> fst (ProcessSetMonitor_poll_stat real_ops (c4_env 1005 c4_procs) c4_monitor) = None
   \<and> written (pm_outfile (snd (ProcessSetMonitor_poll_stat real_ops (c4_env 1005 c4_procs)
         c4_monitor))) = [c4_row 1005]"
proof -
  have d: "distinct (map proc_pid (process_iter (c4_env 1005 c4_procs)))"
    by (simp add: c4_env_def c4_procs_def ps_proc_sel)
  have v: "vanished (c4_procs ! 1)" "vanished (c4_procs ! 4)"
    by (simp_all add: c4_procs_def vanished_def ps_proc_sel)
  have e: "ProcessSetMonitor_poll_stat real_ops (c4_env 1005 c4_procs) c4_monitor
     = (None, c4_monitor\<lparr>pm_outfile := (new_sink (File ''resprofile.csv''))\<lparr>written := [c4_row 1005]\<rparr>\<rparr>)"
    using c4_poll_eval [of "new_sink (File ''resprofile.csv'')" 1005]
    by (simp add: c4_monitor_def new_sink_def)
  have f: "(c4_env 1005 c4_procs)\<lparr>process_iter := [c4_procs ! 0, c4_procs ! 2, c4_procs ! 3]\<rparr>
      = c4_env 1005 [c4_procs ! 0, c4_procs ! 2, c4_procs ! 3]"
    by (simp add: c4_env_def)
  have h: "(\<forall>p \<in> set (process_iter (c4_env 1005 c4_procs)).
          is_candidate (pm_pids c4_monitor) (pm_keywords c4_monitor) p = Inr False
          \<or> (matches (pm_pids c4_monitor) (pm_keywords c4_monitor) p \<and> (readable p \<or> vanished p)))
        \<and> pe_stat_exn (c4_env 1005 c4_procs) = None \<and> pe_write_exn (c4_env 1005 c4_procs) = None
        \<and> \<not> closed (pm_outfile c4_monitor)
        \<and> (pm_flush c4_monitor \<longrightarrow> pe_flush_exn (c4_env 1005 c4_procs) = None)"
    using c4_well_behaved by (simp add: c4_env_def c4_monitor_def new_sink_def)
  have g: "filter (\<lambda>p. \<not> gone (pm_pids c4_monitor) (pm_keywords c4_monitor) p)
        (process_iter (c4_env 1005 c4_procs)) = [c4_procs ! 0, c4_procs ! 2, c4_procs ! 3]"
    using c4_gone by (simp add: c4_env_def c4_monitor_def)
  note t = ProcessSetMonitor_poll_skips_vanished [of "c4_env 1005 c4_procs" real_ops c4_monitor]
  have t1: "ProcessSetMonitor_poll_stat real_ops (c4_env 1005 c4_procs) c4_monitor
       = ProcessSetMonitor_poll_stat real_ops
           (c4_env 1005 [c4_procs ! 0, c4_procs ! 2, c4_procs ! 3]) c4_monitor"
    using t d unfolding g f by blast
  have t2: "fst (ProcessSetMonitor_poll_stat real_ops (c4_env 1005 c4_procs) c4_monitor) = None"
    using t h by blast
  have d': "distinct (map proc_pid c4_procs)"
    using d by (simp add: c4_env_def)
  have w: "written (pm_outfile (snd (ProcessSetMonitor_poll_stat real_ops (c4_env 1005 c4_procs)
         c4_monitor))) = [c4_row 1005]"
    by (simp add: e new_sink_def)
  from d' v t1 t2 w show ?thesis
    by (intro conjI)
qed

lemma proc_loop_no_match:
  "\<forall>p \<in> set procs. is_candidate pids kws p = Inr False \<Longrightarrow>
   proc_loop fo pids kws procs visited acc = Inr (visited, acc)"
  by (induction procs) simp_all

text \<open>
  Claim C10. When no enumerated process matches and the sink accepts the row, the poll
  completes and writes one row of nine fields: the timestamp, the uptime, and \<open>0\<close> for
  each of the seven metrics, which the header names in sorted order.
\<close>

theorem ProcessSetMonitor_poll_no_match_all_zero:
  assumes "\<forall>p \<in> set (process_iter env). is_candidate (pm_pids s) (pm_keywords s) p = Inr False"
      and "pe_stat_exn env = None" and "pe_write_exn env = None" and "\<not> closed (pm_outfile s)"
      and "pm_flush s \<longrightarrow> pe_flush_exn env = None"
  shows "ProcessSetMonitor_poll_stat fo env s
           = (None, s\<lparr>pm_outfile := (pm_outfile s)\<lparr>written := written (pm_outfile s)
                @ [[icell (pe_time env), icell (pe_time env - pm_starttime s),
                    icell 0, icell 0, icell 0, icell 0, icell 0, icell 0, icell 0]]\<rparr>\<rparr>)
       \<and> ProcessSetMonitor_header
           = [''Timestamp'', ''Uptime'', ''%CPU'', ''%MEM'', ''io.read'', ''io.read.MB'', ''io.write'',
              ''io.write.MB'', ''mem.rss.MB'']
       \<and> sorted (drop 2 ProcessSetMonitor_header)
       \<and> set (drop 2 ProcessSetMonitor_header) = fst ` set BASE_STAT"
proof -
  have l: "proc_loop fo (pm_pids s) (pm_keywords s) (process_iter env) {} (\<lambda>k. IntV 0)
      = Inr ({}, \<lambda>k. IntV 0)"
    using assms(1) by (rule proc_loop_no_match)
  have "ProcessSetMonitor_poll_stat fo env s
           = (None, s\<lparr>pm_outfile := (pm_outfile s)\<lparr>written := written (pm_outfile s)
                @ [[icell (pe_time env), icell (pe_time env - pm_starttime s),
                    icell 0, icell 0, icell 0, icell 0, icell 0, icell 0, icell 0]]\<rparr>\<rparr>)"
    using assms(2-5)
    by (simp add: ProcessSetMonitor_poll_stat_def l Let_def sink_write_def ProcessSetMonitor_line_def
        sorted_keys_eq icell_def)
  moreover have "sorted (drop 2 ProcessSetMonitor_header)"
    by (simp add: ProcessSetMonitor_header_def sorted_keys_def)
  moreover have "set (drop 2 ProcessSetMonitor_header) = fst ` set BASE_STAT"
    by (simp add: ProcessSetMonitor_header_def sorted_keys_def)
  ultimately show ?thesis
    by (simp add: ProcessSetMonitor_header_def sorted_keys_eq)
qed

text \<open>
  Only \<open>bash\<close> is running: a row of zeros.
\<close>

theorem ProcessSetMonitor_poll_no_match_all_zero_witness:
  "is_candidate {42} [''python''] (c4_procs ! 2) = Inr False
   \<and> ProcessSetMonitor_poll_stat real_ops (c4_env 1005 [c4_procs ! 2]) c4_monitor
       = (None, c4_monitor\<lparr>pm_outfile := (new_sink (File ''resprofile.csv''))
            \<lparr>written := [[icell 1005, icell 5, icell 0, icell 0, icell 0, icell 0, icell 0,
                          icell 0, icell 0]]\<rparr>\<rparr>)"
proof -
  have c: "is_candidate {42} [''python''] (c4_procs ! 2) = Inr False"
    by (simp add: c4_procs_def c4_matches)
  show ?thesis
    using ProcessSetMonitor_poll_no_match_all_zero [of "c4_env 1005 [c4_procs ! 2]" c4_monitor real_ops] c
    by (simp add: c4_env_def c4_monitor_def new_sink_def)
qed

lemma set_enterabs: "set (enterabs fo e q) = insert e (set q)"
  by (induction q) auto

lemma tick_events_time:
  "e \<in> set (tick_events fo starttime i delay en ep) \<Longrightarrow>
   ev_time e = f_add fo starttime (f_of_int fo (i * delay))"
  by (auto simp: tick_events_def Let_def set_enterabs split: if_splits)

lemma c1_poll_eval:
  "\<not> closed (rm_outfile s) \<Longrightarrow> \<not> rm_flush s \<Longrightarrow>
   ResMonitor_poll_stat real_ops (c1_env t d) s
     = (None, s\<lparr>rm_outfile := (rm_outfile s)\<lparr>written := written (rm_outfile s)
                   @ [ResMonitor_line real_ops (c1_env t d) s]\<rparr>,
                prev_disk_stat := d\<rparr>)"
  by (simp add: ResMonitor_poll_stat_def sink_write_def c1_env_def)

lemma c7_poll_eval:
  "\<not> closed f \<Longrightarrow> \<not> closed g \<Longrightarrow>
   NetworkInterfaceMonitor_poll_stat (c7_poll_env t a b)
      \<lparr>nic_files = [(''eth0'', f), (''lo'', g)], nm_prev_stat = [''eth0'' \<mapsto> a', ''lo'' \<mapsto> b'],
       nm_starttime = st, nm_flush = fl\<rparr>
     = (None, \<lparr>nic_files =
           [(''eth0'', f\<lparr>written := written f @ [NetworkInterfaceMonitor_line t (t - st) ''eth0'' a a']\<rparr>),
            (''lo'', g\<lparr>written := written g @ [NetworkInterfaceMonitor_line t (t - st) ''lo'' b b']\<rparr>)],
         nm_prev_stat = [''eth0'' \<mapsto> a, ''lo'' \<mapsto> b], nm_starttime = st, nm_flush = fl\<rparr>)"
  by (simp add: NetworkInterfaceMonitor_poll_stat_def sink_write_def c7_poll_env_def Let_def)

lemma c2_tick_events:
  "tick_events real_ops 1000 i 5 True True =
     [\<lparr>ev_time = 1000 + real_of_int (i * 5), ev_priority = 0, ev_action = ProcessSetMonitor_poll\<rparr>,
      \<lparr>ev_time = 1000 + real_of_int (i * 5), ev_priority = 1, ev_action = NetworkInterfaceMonitor_poll\<rparr>,
      \<lparr>ev_time = 1000 + real_of_int (i * 5), ev_priority = 2, ev_action = ResMonitor_poll\<rparr>]"
  by (simp add: tick_events_def event_before_def real_ops_def)

lemma real_ops_sel:
  "f_of_int real_ops = real_of_int" "f_add real_ops = (+)" "f_mul real_ops = (*)"
  "f_less real_ops = (<)"
  by (simp_all add: real_ops_def)

text \<open>
  Claim C9. The events of one turn, all entered for the same time, stand in the queue in
  the order ProcessSetMonitor, NetworkInterfaceMonitor, ResMonitor (those that are
  enabled), with priorities 0, 1 and 2, whatever the order on floats is; and
  \<open>scheduler.run()\<close> fires them one after the other in this order: each poll starts from
  the monitors as the poll before it left them, and an exception of a poll ends the run
  before the next poll starts.
\<close>

theorem tick_events_order:
  "map ev_action (tick_events fo starttime i delay en ep)
     = (if ep then [ProcessSetMonitor_poll] else [])
       @ (if en then [NetworkInterfaceMonitor_poll] else []) @ [ResMonitor_poll]
   \<and> map ev_priority (tick_events fo starttime i delay en ep)
       = (if ep then [0] else []) @ (if en then [1] else []) @ [2]
   \<and> scheduler_run fo te (tick_events fo starttime i delay True True) ms
       = (case te_sleep_exn te of
            Some e \<Rightarrow> (Some e, ms)
          | None \<Rightarrow>
              (case fire fo te ProcessSetMonitor_poll ms of
                 (Some e, ms1) \<Rightarrow> (Some e, ms1)
               | (None, ms1) \<Rightarrow>
                   (case fire fo te NetworkInterfaceMonitor_poll ms1 of
                      (Some e, ms2) \<Rightarrow> (Some e, ms2)
                    | (None, ms2) \<Rightarrow> fire fo te ResMonitor_poll ms2)))"
  by (simp add: tick_events_def event_before_def scheduler_run_def Let_def
      split: option.splits prod.splits)

theorem tick_events_order_witness:
  "map ev_action (tick_events real_ops 1000 3 5 True True)
     = [ProcessSetMonitor_poll, NetworkInterfaceMonitor_poll, ResMonitor_poll]
   \<and> map ev_priority (tick_events real_ops 1000 3 5 True True) = [0, 1, 2]
   \<and> map ev_time (tick_events real_ops 1000 3 5 True True) = [1015, 1015, 1015]
   \<and> map ev_action (tick_events real_ops 1000 3 5 False True)
       = [ProcessSetMonitor_poll, ResMonitor_poll]
   \<and> map ev_action (tick_events real_ops 1000 3 5 False False) = [ResMonitor_poll]"
  using tick_events_order [of real_ops 1000 3 5 True True]
    tick_events_order [of real_ops 1000 3 5 False True]
    tick_events_order [of real_ops 1000 3 5 False False]
  by (simp add: c2_tick_events)









lemma c3_try_eval:
  "main_try real_ops c3_main_env c3_args empty_console =
     (Some KeyboardInterrupt,
      unbound\<lparr>var_scheduler := Some [], var_rm := Some \<lparr>ncores = 2,
            rm_outfile = \<lparr>dest = Stdout, written = [map Str (ResMonitor_header 2)], closed = False\<rparr>,
            rm_flush = False, prev_disk_stat = c1_prior, rm_starttime = 1000\<rparr>,
         var_enable_nic_mon := Some False, var_nm := Some None, var_enable_ps_mon := Some True\<rparr>,
      \<lparr>stdout = [], stderr = [''Resource monitor started.'', ''ProcessSet monitor started.'']\<rparr>)"
  by (simp add: main_try_def c3_main_env_def c3_args_def chprio_def c6_init_eval ps_pids_set_def
      ProcessSetMonitor_init_def open_outfile_def sink_write_def new_sink_def c4_env_def
      ProcessSetMonitor_poll_stat_def print_err_def unbound_def)

text \<open>
  Claim C3, at an input where the program does not do what the claim says. \<open>main\<close> is
  run with \<open>--ps-pids 42\<close>, and the interrupt arrives while the constructor of the
  ProcessSetMonitor runs its first poll, after it has opened its file. The \<open>except\<close>
  clause prints the notice; the \<open>finally\<close> block closes the ResMonitor and then reads
  \<open>pm\<close>, which no assignment has reached: the process ends with the traceback of an
  \<open>UnboundLocalError\<close>, not with success, and the ProcessSetMonitor that had announced
  itself is never closed.
\<close>

theorem main_interrupt_in_ProcessSetMonitor_init:
  "ending (main real_ops c3_main_env c3_args) = Traceback (UnboundLocalError ''pm'')
   \<and> final_console (main real_ops c3_main_env c3_args)
       = \<lparr>stdout = [''Monitoring interrupted. Exiting.''],
          stderr = [''Resource monitor started.'', ''ProcessSet monitor started.'',
                    ''Resource monitor closed.'']\<rparr>
   \<and> var_pm (final_locals (main real_ops c3_main_env c3_args)) = None"
  by (simp add: main_def c3_try_eval main_finally_def unbound_def ResMonitor_close_def
      close_outfile_def print_err_def print_out_def)


lemma fire_keeps_None:
  "fire fo te a ms = (r, ms') \<Longrightarrow>
   (m_nm ms' = None \<longleftrightarrow> m_nm ms = None) \<and> (m_pm ms' = None \<longleftrightarrow> m_pm ms = None)"
  by (auto simp: fire_def split: action.splits option.splits prod.splits)

lemma run_events_keeps_None:
  "run_events fo te q ms = (r, ms') \<Longrightarrow>
   (m_nm ms' = None \<longleftrightarrow> m_nm ms = None) \<and> (m_pm ms' = None \<longleftrightarrow> m_pm ms = None)"
proof (induction q arbitrary: ms)
  case Nil
  then show ?case by simp
next
  case (Cons e q)
  obtain x ms1 where f: "fire fo te (ev_action e) ms = (x, ms1)"
    by (cases "fire fo te (ev_action e) ms")
  note k = fire_keeps_None [OF f]
  show ?case
  proof (cases x)
    case None
    with Cons.prems f have "run_events fo te q ms1 = (r, ms')" by simp
    from Cons.IH [OF this] k show ?thesis by simp
  next
    case (Some y)
    with Cons.prems f have "ms' = ms1" by simp
    with k show ?thesis by simp
  qed
qed

lemma main_loop_keeps_None:
  "main_loop fo delay starttime en ep ticks i ms sch = (r, i', ms', sch') \<Longrightarrow>
   (m_nm ms' = None \<longleftrightarrow> m_nm ms = None) \<and> (m_pm ms' = None \<longleftrightarrow> m_pm ms = None)"
proof (induction ticks arbitrary: i ms sch)
  case Nil
  then show ?case by simp
next
  case (Cons te ticks)
  obtain x ms1 where
    s: "scheduler_run fo te (tick_events fo starttime i delay en ep) ms = (x, ms1)"
    by (cases "scheduler_run fo te (tick_events fo starttime i delay en ep) ms")
  have k: "(m_nm ms1 = None \<longleftrightarrow> m_nm ms = None) \<and> (m_pm ms1 = None \<longleftrightarrow> m_pm ms = None)"
    using s run_events_keeps_None [of fo te "tick_events fo starttime i delay en ep" ms x ms1]
    by (auto simp: scheduler_run_def split: option.splits)
  show ?case
  proof (cases x)
    case None
    with Cons.prems s
    have "main_loop fo delay starttime en ep ticks (i + 1) ms1
            (sch @ tick_events fo starttime i delay en ep) = (r, i', ms', sch')"
      by (simp add: Let_def)
    from Cons.IH [OF this] k show ?thesis by simp
  next
    case (Some y)
    with Cons.prems s have "ms' = ms1" by (simp add: Let_def)
    with k show ?thesis by simp
  qed
qed

lemma main_try_bound:
  assumes "main_try fo env a con = (r, L, con')" and "var_pm L \<noteq> None"
  shows "\<exists>sch rm nm pm. L = \<lparr>var_scheduler = Some sch, var_rm = Some rm,
            var_enable_nic_mon = Some (nm \<noteq> None),
            var_nm = Some nm, var_enable_ps_mon = Some (pm \<noteq> None), var_pm = Some pm\<rparr>
          \<and> (nm \<noteq> None \<longleftrightarrow> arg_nic a \<noteq> None)
          \<and> (pm \<noteq> None \<longleftrightarrow> card (ps_pids_set a) > 0)"
  using assms
  apply (simp add: main_try_def Let_def unbound_def bind_monitors_def
      split: prod.splits option.splits sum.splits if_splits)
  apply (auto dest!: main_loop_keeps_None)
  done

lemma main_finally_bound:
  "\<exists>L'. main_finally
      \<lparr>var_scheduler = sch, var_rm = Some rm, var_enable_nic_mon = Some (nm \<noteq> None),
       var_nm = Some nm,
       var_enable_ps_mon = Some (pm \<noteq> None), var_pm = Some pm\<rparr> con
     = (None, L',
        con\<lparr>stderr := stderr con @ [''Resource monitor closed.'']
              @ (if nm \<noteq> None then [''NIC monitor closed.''] else [])
              @ (if pm \<noteq> None then [''ProcessSet monitor closed.''] else [])\<rparr>)"
  by (cases nm; cases pm)
    (simp_all add: main_finally_def Let_def ResMonitor_close_def NetworkInterfaceMonitor_close_def
      ProcessSetMonitor_close_def print_err_def)

lemma init_consoles:
  "ResMonitor_init e1 n1 f1 con = (r1, con1) \<Longrightarrow>
     con1 = print_err ''Resource monitor started.'' con"
  "NetworkInterfaceMonitor_init e2 pat n2 f2 con = (r2, con2) \<Longrightarrow>
     con2 = print_err ''NIC monitor started.'' con"
  "ProcessSetMonitor_init fo e3 k3 p3 n3 f3 con = (r3, con3) \<Longrightarrow>
     con3 = print_err ''ProcessSet monitor started.'' con"
  by (auto simp: ResMonitor_init_def NetworkInterfaceMonitor_init_def ProcessSetMonitor_init_def
      Let_def split: sum.splits option.splits prod.splits if_splits)

lemma main_try_console:
  assumes "main_try fo env a empty_console = (r, L, con)"
  shows "stdout con = []
       \<and> set (stderr con) \<subseteq> {''Warning: failed to elevate priority!'', ''Resource monitor started.'',
            ''NIC monitor started.'', ''ProcessSet monitor started.''}"
  using assms
  apply (simp add: main_try_def Let_def chprio_def
      split: prod.splits option.splits sum.splits if_splits)
  apply (auto dest!: init_consoles simp: print_err_def empty_console_def)
  done

text \<open>
  Where the cleanup does work: once \<open>pm\<close> is assigned, so that startup is through to
  the last constructor, whatever exception leaves the \<open>try\<close> block (an interrupt in a
  poll or in the scheduler's wait, an I/O error of a sink), the \<open>finally\<close> block calls
  \<open>close()\<close> once on the ResMonitor and once on each enabled monitor; an interrupt
  prints the notice and \<open>main\<close> returns, any other exception goes on to a traceback.
\<close>

lemma main_closes_every_monitor_after_startup:
  assumes t: "main_try fo env a empty_console = (Some e, L, con)" and b: "var_pm L \<noteq> None"
  shows "ending (main fo env a) = (if e = KeyboardInterrupt then Exit0 else Traceback e)
       \<and> stdout (final_console (main fo env a))
           = (if e = KeyboardInterrupt then [''Monitoring interrupted. Exiting.''] else [])
       \<and> count_list (stderr (final_console (main fo env a))) ''Resource monitor closed.'' = 1
       \<and> count_list (stderr (final_console (main fo env a))) ''NIC monitor closed.''
           = (if arg_nic a \<noteq> None then 1 else 0)
       \<and> count_list (stderr (final_console (main fo env a))) ''ProcessSet monitor closed.''
           = (if card (ps_pids_set a) > 0 then 1 else 0)"
proof -
  from main_try_bound [OF t b] obtain sch rm nm pm where
    L: "L = \<lparr>var_scheduler = Some sch, var_rm = Some rm,
            var_enable_nic_mon = Some (nm \<noteq> None),
            var_nm = Some nm, var_enable_ps_mon = Some (pm \<noteq> None), var_pm = Some pm\<rparr>"
    and nm: "nm \<noteq> None \<longleftrightarrow> arg_nic a \<noteq> None"
    and pm: "pm \<noteq> None \<longleftrightarrow> card (ps_pids_set a) > 0"
    by (elim exE conjE) (rule that)
  define con1 where "con1 = (if e = KeyboardInterrupt
               then print_out ''Monitoring interrupted. Exiting.'' con else con)"
  define closed_msgs where "closed_msgs = [''Resource monitor closed.'']
              @ (if nm \<noteq> None then [''NIC monitor closed.''] else [])
              @ (if pm \<noteq> None then [''ProcessSet monitor closed.''] else [])"
  have "\<exists>L'. main_finally L con1 = (None, L', con1\<lparr>stderr := stderr con1 @ closed_msgs\<rparr>)"
    unfolding L closed_msgs_def by (rule main_finally_bound)
  then obtain L' where
    f: "main_finally L con1 = (None, L', con1\<lparr>stderr := stderr con1 @ closed_msgs\<rparr>)" ..
  have m: "main fo env a
      = \<lparr>ending = (if e = KeyboardInterrupt then Exit0 else Traceback e), final_locals = L',
         final_console = con1\<lparr>stderr := stderr con1 @ closed_msgs\<rparr>\<rparr>"
    unfolding main_def t Let_def prod.case option.case con1_def [symmetric] f by simp
  note o = main_try_console [OF t, THEN conjunct1]
    and s = main_try_console [OF t, THEN conjunct2]
  have e1: "stderr con1 = stderr con"
    and o1: "stdout con1 = (if e = KeyboardInterrupt then [''Monitoring interrupted. Exiting.''] else [])"
    using o by (simp_all add: con1_def print_out_def)
  have n: "''Resource monitor closed.'' \<notin> set (stderr con)"
      "''NIC monitor closed.'' \<notin> set (stderr con)"
      "''ProcessSet monitor closed.'' \<notin> set (stderr con)"
    using s by auto
  have z: "count_list (stderr con) ''Resource monitor closed.'' = 0"
      "count_list (stderr con) ''NIC monitor closed.'' = 0"
      "count_list (stderr con) ''ProcessSet monitor closed.'' = 0"
    using n by (simp_all add: count_list_0_iff)
  have c: "count_list closed_msgs ''Resource monitor closed.'' = 1"
      "count_list closed_msgs ''NIC monitor closed.'' = (if nm \<noteq> None then 1 else 0)"
      "count_list closed_msgs ''ProcessSet monitor closed.'' = (if pm \<noteq> None then 1 else 0)"
    by (simp_all add: closed_msgs_def)
  show ?thesis
    unfolding m using z c nm pm
    by (simp add: e1 o1)
qed

lemma length_enterabs: "length (enterabs fo e q) = Suc (length q)"
  by (induction q) auto

lemma tick_events_length:
  "length (tick_events fo starttime i delay en ep)
     = 1 + (if en then 1 else 0) + (if ep then 1 else 0)"
  by (simp add: tick_events_def Let_def length_enterabs)

lemma tick_events_times:
  "map ev_time (tick_events fo starttime i delay en ep)
     = replicate (1 + (if en then 1 else 0) + (if ep then 1 else 0))
         (f_add fo starttime (f_of_int fo (i * delay)))"
proof -
  have "map ev_time (tick_events fo starttime i delay en ep)
      = replicate (length (tick_events fo starttime i delay en ep))
          (f_add fo starttime (f_of_int fo (i * delay)))"
    by (rule replicate_eqI) (auto dest: tick_events_time)
  then show ?thesis
    by (simp only: tick_events_length)
qed

lemma main_loop_entered:
  "main_loop fo delay starttime en ep ticks i ms sch = (r, i', ms', sch') \<Longrightarrow>
   \<exists>n. sch' = sch @ concat (map (\<lambda>k. tick_events fo starttime (i + int k) delay en ep) [0..<n])
     \<and> n \<le> length ticks \<and> (r = None \<longrightarrow> n = length ticks)"
proof (induction ticks arbitrary: i ms sch)
  case Nil
  then show ?case by simp
next
  case (Cons te ticks)
  let ?q = "tick_events fo starttime i delay en ep"
  obtain x ms1 where s: "scheduler_run fo te ?q ms = (x, ms1)"
    by (cases "scheduler_run fo te ?q ms")
  show ?case
  proof (cases x)
    case (Some e)
    with Cons.prems s have "sch' = sch @ ?q" and "r \<noteq> None"
      by (auto simp: Let_def)
    then show ?thesis
      by (intro exI [of _ 1]) auto
  next
    case None
    with Cons.prems s
    have "main_loop fo delay starttime en ep ticks (i + 1) ms1 (sch @ ?q) = (r, i', ms', sch')"
      by (simp add: Let_def)
    from Cons.IH [OF this] obtain n where
      e: "sch' = (sch @ ?q)
            @ concat (map (\<lambda>k. tick_events fo starttime (i + 1 + int k) delay en ep) [0..<n])"
      and n: "n \<le> length ticks" "r = None \<longrightarrow> n = length ticks"
      by blast
    have "sch' = sch
        @ concat (map (\<lambda>k. tick_events fo starttime (i + int k) delay en ep) [0..<Suc n])"
      unfolding e map_upt_Suc by (simp add: ac_simps)
    with n show ?thesis
      by (intro exI [of _ "Suc n"]) simp
  qed
qed

lemma main_loop_entered_from_1:
  assumes "main_loop fo delay starttime en ep ticks 1 ms [] = (r, i', ms', sch')"
  shows "\<exists>n. sch' = concat (map (\<lambda>i. tick_events fo starttime (int i) delay en ep) [1..<Suc n])
     \<and> n \<le> length ticks \<and> (r = None \<longrightarrow> n = length ticks)"
proof -
  from main_loop_entered [OF assms] obtain n where
    e: "sch' = concat (map (\<lambda>k. tick_events fo starttime (1 + int k) delay en ep) [0..<n])"
    and n: "n \<le> length ticks" "r = None \<longrightarrow> n = length ticks"
    by auto
  have "[1..<Suc n] = map Suc [0..<n]"
    by (simp only: map_Suc_upt One_nat_def)
  then have "map (\<lambda>i. tick_events fo starttime (int i) delay en ep) [1..<Suc n]
      = map (\<lambda>k. tick_events fo starttime (1 + int k) delay en ep) [0..<n]"
    by (simp add: o_def add.commute)
  with e n show ?thesis
    by (intro exI [of _ n]) simp
qed

lemma main_finally_scheduler:
  "main_finally L con = (r, L', con') \<Longrightarrow> var_scheduler L' = var_scheduler L"
  by (auto simp: main_finally_def Let_def split: option.splits prod.splits if_splits)

lemma main_try_scheduler:
  assumes "main_try fo env a con = (r, L, con')" and "var_scheduler L = Some entered"
      and "me_starttime env = Inr starttime"
  shows "(entered = [] \<and> r \<noteq> None)
       \<or> (\<exists>ms i ms'. main_loop fo (arg_delay a) starttime (arg_nic a \<noteq> None)
              (0 < card (ps_pids_set a)) (me_ticks env) 1 ms [] = (r, i, ms', entered))"
  using assms
  apply (simp add: main_try_def Let_def unbound_def bind_monitors_def
      split: prod.splits option.splits sum.splits if_splits)
  apply auto
  done


text \<open>
  Claim C2. \<open>main\<close> reads the clock once before the loop, \<open>starttime\<close>. Whatever the
  environment does afterwards (the clock readings of the polls, how late they ran,
  an exception), the events that \<open>main\<close> has entered into the scheduler are, for some
  \<open>n\<close>, those of the turns \<open>i = 1, ..., n\<close> in this order, and the times they were
  entered for are \<open>starttime + 1 * delay\<close> for each event of the first turn,
  \<open>starttime + 2 * delay\<close> for each event of the second, and so on up to
  \<open>starttime + n * delay\<close>. While the loop is running, \<open>n\<close> is the number of turns
  observed. No event is entered for a time that depends on a later reading of the
  clock.
\<close>

theorem main_fire_times:
  assumes st: "me_starttime env = Inr starttime"
      and sc: "var_scheduler (final_locals (main fo env a)) = Some entered"
  shows "\<exists>n. n \<le> length (me_ticks env)
       \<and> (ending (main fo env a) = Running \<longrightarrow> n = length (me_ticks env))
       \<and> entered
           = concat (map (\<lambda>i. tick_events fo starttime (int i) (arg_delay a) (arg_nic a \<noteq> None)
                             (0 < card (ps_pids_set a))) [1..<Suc n])
       \<and> map ev_time entered
           = concat (map (\<lambda>i. replicate (1 + (if arg_nic a \<noteq> None then 1 else 0)
                                         + (if 0 < card (ps_pids_set a) then 1 else 0))
                                (f_add fo starttime (f_of_int fo (int i * arg_delay a))))
                      [1..<Suc n])"
proof -
  obtain r L con where t: "main_try fo env a empty_console = (r, L, con)"
    by (cases "main_try fo env a empty_console")
  have fl: "var_scheduler (final_locals (main fo env a)) = var_scheduler L"
    and en: "ending (main fo env a) = Running \<longleftrightarrow> r = None"
    using t
    by (auto simp: main_def Let_def split: option.splits prod.splits
        dest: main_finally_scheduler)
  from sc fl have L: "var_scheduler L = Some entered" by simp
  let ?T = "\<lambda>i. tick_events fo starttime (int i) (arg_delay a) (arg_nic a \<noteq> None)
              (0 < card (ps_pids_set a))"
  have "\<exists>n. n \<le> length (me_ticks env) \<and> (r = None \<longrightarrow> n = length (me_ticks env))
          \<and> entered = concat (map ?T [1..<Suc n])"
    using main_try_scheduler [OF t L st]
  proof
    assume "entered = [] \<and> r \<noteq> None"
    then show ?thesis
      by (intro exI [of _ 0]) auto
  next
    assume "\<exists>ms i ms'. main_loop fo (arg_delay a) starttime (arg_nic a \<noteq> None)
              (0 < card (ps_pids_set a)) (me_ticks env) 1 ms [] = (r, i, ms', entered)"
    then obtain ms i ms' where "main_loop fo (arg_delay a) starttime (arg_nic a \<noteq> None)
              (0 < card (ps_pids_set a)) (me_ticks env) 1 ms [] = (r, i, ms', entered)"
      by (elim exE)
    from main_loop_entered_from_1 [OF this] show ?thesis
      by (elim exE conjE) (intro exI conjI, assumption+)
  qed
  then obtain n where n: "n \<le> length (me_ticks env)" "r = None \<longrightarrow> n = length (me_ticks env)"
    and e: "entered = concat (map ?T [1..<Suc n])"
    by (elim exE conjE)
  have "map ev_time entered = concat (map (\<lambda>i. map ev_time (?T i)) [1..<Suc n])"
    unfolding e by (simp add: map_concat o_def)
  then have "map ev_time entered
           = concat (map (\<lambda>i. replicate (1 + (if arg_nic a \<noteq> None then 1 else 0)
                                         + (if 0 < card (ps_pids_set a) then 1 else 0))
                                (f_add fo starttime (f_of_int fo (int i * arg_delay a))))
                      [1..<Suc n])"
    by (simp only: tick_events_times)
  with n e en show ?thesis
    by (intro exI [of _ n]) simp
qed


lemma c2_ps_loop:
  "\<exists>v c. proc_loop real_ops {42} [] c4_procs {} (\<lambda>k. IntV 0) = Inr (v, c)"
  unfolding c4_procs_def
  by (simp add: is_candidate_def stat_proc_def ps_proc_sel)

lemma c2_ps_poll:
  assumes "\<not> closed f"
  shows "\<exists>f'. ProcessSetMonitor_poll_stat real_ops (c4_env t c4_procs)
            \<lparr>pm_outfile = f, pm_pids = {42}, pm_keywords = [], pm_flush = False,
             pm_starttime = 1000\<rparr>
          = (None, \<lparr>pm_outfile = f', pm_pids = {42}, pm_keywords = [], pm_flush = False,
                    pm_starttime = 1000\<rparr>)
        \<and> \<not> closed f'"
proof -
  obtain v c where l: "proc_loop real_ops {42} [] c4_procs {} (\<lambda>k. IntV 0) = Inr (v, c)"
    using c2_ps_loop by (elim exE)
  show ?thesis
    using assms
    by (simp add: ProcessSetMonitor_poll_stat_def c4_env_def l sink_write_def)
qed

lemma c2_ps_init:
  "\<exists>f. ProcessSetMonitor_init real_ops (me_pm c2_main_env) [] {42} (Some ''resprofile.csv'')
          False con
        = (Inr \<lparr>pm_outfile = f, pm_pids = {42}, pm_keywords = [], pm_flush = False,
                 pm_starttime = 1000\<rparr>, print_err ''ProcessSet monitor started.'' con)
      \<and> \<not> closed f"
proof -
  let ?f = "\<lparr>dest = File ''resprofile.csv'', written = [map Str ProcessSetMonitor_header],
             closed = False\<rparr>"
  have "\<not> closed ?f" by simp
  from c2_ps_poll [OF this, of 1000] obtain f' where
    "ProcessSetMonitor_poll_stat real_ops (c4_env 1000 c4_procs)
            \<lparr>pm_outfile = ?f, pm_pids = {42}, pm_keywords = [], pm_flush = False,
             pm_starttime = 1000\<rparr>
          = (None, \<lparr>pm_outfile = f', pm_pids = {42}, pm_keywords = [], pm_flush = False,
                    pm_starttime = 1000\<rparr>)" and "\<not> closed f'"
    by (elim exE conjE)
  then show ?thesis
    by (intro exI [of _ f'])
      (simp add: ProcessSetMonitor_init_def c2_main_env_def open_outfile_def new_sink_def
        sink_write_def)
qed

lemma c2_tick_ok:
  assumes "\<not> closed f1" "\<not> closed f" "\<not> closed g" "\<not> closed f3"
  shows "\<exists>f1' f' g' f3' a' b' d'.
     scheduler_run real_ops (c2_tick t) (tick_events real_ops 1000 i 5 True True)
       \<lparr>m_rm = \<lparr>ncores = 2, rm_outfile = f1, rm_flush = False, prev_disk_stat = d,
                rm_starttime = 1000\<rparr>,
        m_nm = Some \<lparr>nic_files = [(''eth0'', f), (''lo'', g)],
                     nm_prev_stat = [''eth0'' \<mapsto> a, ''lo'' \<mapsto> b],
                     nm_starttime = 1000, nm_flush = False\<rparr>,
        m_pm = Some \<lparr>pm_outfile = f3, pm_pids = {42}, pm_keywords = [], pm_flush = False,
                     pm_starttime = 1000\<rparr>\<rparr>
     = (None,
        \<lparr>m_rm = \<lparr>ncores = 2, rm_outfile = f1', rm_flush = False, prev_disk_stat = d',
                rm_starttime = 1000\<rparr>,
         m_nm = Some \<lparr>nic_files = [(''eth0'', f'), (''lo'', g')],
                      nm_prev_stat = [''eth0'' \<mapsto> a', ''lo'' \<mapsto> b'],
                      nm_starttime = 1000, nm_flush = False\<rparr>,
         m_pm = Some \<lparr>pm_outfile = f3', pm_pids = {42}, pm_keywords = [], pm_flush = False,
                      pm_starttime = 1000\<rparr>\<rparr>)
     \<and> \<not> closed f1' \<and> \<not> closed f' \<and> \<not> closed g' \<and> \<not> closed f3'"
proof -
  let ?rm = "\<lparr>ncores = 2, rm_outfile = f1, rm_flush = False, prev_disk_stat = d,
                rm_starttime = 1000\<rparr> :: real ResMonitor"
  let ?f1 = "f1\<lparr>written := written f1 @ [ResMonitor_line real_ops (c1_env t c1_current) ?rm]\<rparr>"
  let ?f = "f\<lparr>written := written f @ [NetworkInterfaceMonitor_line t (t - 1000) ''eth0'' c7_current a]\<rparr>"
  let ?g = "g\<lparr>written := written g @ [NetworkInterfaceMonitor_line t (t - 1000) ''lo'' c7_lo_current b]\<rparr>"
  from c2_ps_poll [OF assms(4), of t] obtain f3' where
    p: "ProcessSetMonitor_poll_stat real_ops (c4_env t c4_procs)
            \<lparr>pm_outfile = f3, pm_pids = {42}, pm_keywords = [], pm_flush = False,
             pm_starttime = 1000\<rparr>
          = (None, \<lparr>pm_outfile = f3', pm_pids = {42}, pm_keywords = [], pm_flush = False,
                    pm_starttime = 1000\<rparr>)" and o: "\<not> closed f3'"
    by (elim exE conjE)
  show ?thesis
    using assms o
    by (intro exI [of _ ?f1] exI [of _ ?f] exI [of _ ?g] exI [of _ f3'] exI [of _ c7_current]
        exI [of _ c7_lo_current] exI [of _ c1_current])
      (simp add: c2_tick_events scheduler_run_def fire_def c2_tick_def p
        c7_poll_eval c1_poll_eval)
qed


lemma c2_loop_eval:
  assumes "\<not> closed f1" "\<not> closed f" "\<not> closed g" "\<not> closed f3"
  shows "\<exists>i' ms' sch'.
     main_loop real_ops 5 1000 True True (map c2_tick ts) i
       \<lparr>m_rm = \<lparr>ncores = 2, rm_outfile = f1, rm_flush = False, prev_disk_stat = d,
                rm_starttime = 1000\<rparr>,
        m_nm = Some \<lparr>nic_files = [(''eth0'', f), (''lo'', g)],
                     nm_prev_stat = [''eth0'' \<mapsto> a, ''lo'' \<mapsto> b],
                     nm_starttime = 1000, nm_flush = False\<rparr>,
        m_pm = Some \<lparr>pm_outfile = f3, pm_pids = {42}, pm_keywords = [], pm_flush = False,
                     pm_starttime = 1000\<rparr>\<rparr> sch
     = (None, i', ms', sch')"
  using assms
proof (induction ts arbitrary: i f1 f g f3 d a b sch)
  case Nil
  show ?case by simp
next
  case (Cons t ts)
  from c2_tick_ok [OF Cons.prems, of t i d a b] obtain f1' f' g' f3' a' b' d' where
    s: "scheduler_run real_ops (c2_tick t) (tick_events real_ops 1000 i 5 True True)
       \<lparr>m_rm = \<lparr>ncores = 2, rm_outfile = f1, rm_flush = False, prev_disk_stat = d,
                rm_starttime = 1000\<rparr>,
        m_nm = Some \<lparr>nic_files = [(''eth0'', f), (''lo'', g)],
                     nm_prev_stat = [''eth0'' \<mapsto> a, ''lo'' \<mapsto> b],
                     nm_starttime = 1000, nm_flush = False\<rparr>,
        m_pm = Some \<lparr>pm_outfile = f3, pm_pids = {42}, pm_keywords = [], pm_flush = False,
                     pm_starttime = 1000\<rparr>\<rparr>
     = (None,
        \<lparr>m_rm = \<lparr>ncores = 2, rm_outfile = f1', rm_flush = False, prev_disk_stat = d',
                rm_starttime = 1000\<rparr>,
         m_nm = Some \<lparr>nic_files = [(''eth0'', f'), (''lo'', g')],
                      nm_prev_stat = [''eth0'' \<mapsto> a', ''lo'' \<mapsto> b'],
                      nm_starttime = 1000, nm_flush = False\<rparr>,
         m_pm = Some \<lparr>pm_outfile = f3', pm_pids = {42}, pm_keywords = [], pm_flush = False,
                      pm_starttime = 1000\<rparr>\<rparr>)"
    and o: "\<not> closed f1'" "\<not> closed f'" "\<not> closed g'" "\<not> closed f3'"
    by (elim exE conjE)
  from Cons.IH [OF o, of "i + 1" d' a' b' "sch @ tick_events real_ops 1000 i 5 True True"]
  show ?case
    unfolding list.map main_loop.simps Let_def s prod.case option.case .
qed

lemma c2_nic_init:
  "NetworkInterfaceMonitor_init c7_init default_outfile_pattern (Some [''eth0'', ''wlan9'', ''lo''])
      False con
   = (Inr c7_monitor, print_err ''NIC monitor started.'' con)"
  by (simp add: NetworkInterfaceMonitor_init_def c7_init_def c7_poll_env_def c7_monitor_def
      create_new_logfile_def format_nic_def
      default_outfile_pattern_def NetworkInterfaceMonitor_poll_stat_def sink_write_def)

lemma c2_try_eval:
  "\<exists>L con. main_try real_ops c2_main_env c2_args empty_console = (None, L, con)"
proof -
  have sel: "me_chprio_exn c2_main_env = None" "me_rm c2_main_env = c6_init"
    "me_nm c2_main_env = c7_init" "me_starttime c2_main_env = Inr 1000"
    "me_ticks c2_main_env = map c2_tick [1009, 1013, 1015]"
    "arg_outfile c2_args = None" "arg_flush c2_args = False" "arg_delay c2_args = 5"
    "arg_nic c2_args = Some [''eth0'', ''wlan9'', ''lo'']" "ps_pids_set c2_args = {42}"
    "arg_ps_outfile c2_args = ''resprofile.csv''"
    "(Some [''eth0'', ''wlan9'', ''lo''] \<noteq> None) = True" "(0 < card {42 :: int}) = True"
    by (simp_all add: c2_main_env_def c2_args_def ps_pids_set_def)
  have "\<exists>f3. \<forall>con. ProcessSetMonitor_init real_ops (me_pm c2_main_env) [] {42}
               (Some ''resprofile.csv'') False con
        = (Inr \<lparr>pm_outfile = f3, pm_pids = {42}, pm_keywords = [], pm_flush = False,
                 pm_starttime = 1000\<rparr>, print_err ''ProcessSet monitor started.'' con)
        \<and> \<not> closed f3"
    using c2_ps_init [of empty_console]
    by (auto simp: ProcessSetMonitor_init_def Let_def split: sum.splits prod.splits option.splits)
  then obtain f3 where
    p: "\<And>con. ProcessSetMonitor_init real_ops (me_pm c2_main_env) [] {42}
               (Some ''resprofile.csv'') False con
        = (Inr \<lparr>pm_outfile = f3, pm_pids = {42}, pm_keywords = [], pm_flush = False,
                 pm_starttime = 1000\<rparr>, print_err ''ProcessSet monitor started.'' con)"
    and o3: "\<not> closed f3"
    by blast
  have "\<exists>i' ms' sch'. main_loop real_ops 5 1000 True True (map c2_tick [1009, 1013, 1015]) 1
       \<lparr>m_rm = \<lparr>ncores = 2,
                rm_outfile = \<lparr>dest = Stdout, written = [map Str (ResMonitor_header 2)],
                               closed = False\<rparr>,
                rm_flush = False, prev_disk_stat = c1_prior, rm_starttime = 1000\<rparr>,
        m_nm = Some c7_monitor,
        m_pm = Some \<lparr>pm_outfile = f3, pm_pids = {42}, pm_keywords = [], pm_flush = False,
                     pm_starttime = 1000\<rparr>\<rparr> []
     = (None, i', ms', sch')"
    unfolding c7_monitor_def by (rule c2_loop_eval) (simp_all add: o3)
  then obtain i' ms' sch' where
    l: "main_loop real_ops 5 1000 True True (map c2_tick [1009, 1013, 1015]) 1
       \<lparr>m_rm = \<lparr>ncores = 2,
                rm_outfile = \<lparr>dest = Stdout, written = [map Str (ResMonitor_header 2)],
                               closed = False\<rparr>,
                rm_flush = False, prev_disk_stat = c1_prior, rm_starttime = 1000\<rparr>,
        m_nm = Some c7_monitor,
        m_pm = Some \<lparr>pm_outfile = f3, pm_pids = {42}, pm_keywords = [], pm_flush = False,
                     pm_starttime = 1000\<rparr>\<rparr> []
     = (None, i', ms', sch')"
    by (elim exE)
  show ?thesis
    by (simp only: main_try_def sel chprio_def c6_init_eval c2_nic_init p l Let_def
        prod.case option.case sum.case if_True simp_thms) simp
qed

text \<open>
  With \<open>--ps-pids 42 --nic eth0 wlan9 lo\<close>, start time 1000 and delay 5, the polls of
  the three observed turns read the clock at 1009, 1013 and 1015: four, three and no
  seconds late. The loop is still running, and the nine events it has entered are
  for 1005, 1010 and 1015.
\<close>

theorem main_fire_times_witness:
  "me_starttime c2_main_env = Inr 1000
   \<and> ending (main real_ops c2_main_env c2_args) = Running
   \<and> (\<exists>entered. var_scheduler (final_locals (main real_ops c2_main_env c2_args)) = Some entered
         \<and> map ev_time entered = [1005, 1005, 1005, 1010, 1010, 1010, 1015, 1015, 1015])"
proof -
  have st: "me_starttime c2_main_env = Inr 1000"
    by (simp add: c2_main_env_def)
  obtain L con where t: "main_try real_ops c2_main_env c2_args empty_console = (None, L, con)"
    using c2_try_eval by (elim exE)
  have r: "ending (main real_ops c2_main_env c2_args) = Running"
    by (simp add: main_def t)
  have "\<exists>entered. var_scheduler L = Some entered"
    using t
    by (auto simp: main_try_def Let_def chprio_def c2_main_env_def
        split: prod.splits sum.splits option.splits if_splits)
  then obtain entered where "var_scheduler L = Some entered"
    by (elim exE)
  then have sc: "var_scheduler (final_locals (main real_ops c2_main_env c2_args)) = Some entered"
    by (simp add: main_def t)
  have sel: "length (me_ticks c2_main_env) = 3" "arg_delay c2_args = 5"
    "arg_nic c2_args \<noteq> None" "0 < card (ps_pids_set c2_args)"
    by (simp_all add: c2_main_env_def c2_args_def ps_pids_set_def)
  from main_fire_times [OF st sc] obtain n where
    n: "ending (main real_ops c2_main_env c2_args) = Running
          \<longrightarrow> n = length (me_ticks c2_main_env)"
    and m: "map ev_time entered
           = concat (map (\<lambda>i. replicate (1 + (if arg_nic c2_args \<noteq> None then 1 else 0)
                                         + (if 0 < card (ps_pids_set c2_args) then 1 else 0))
                                (f_add real_ops 1000
                                   (f_of_int real_ops (int i * arg_delay c2_args))))
                      [1..<Suc n])"
    by (elim exE conjE)
  from n r have "n = 3"
    by (simp add: sel)
  with m have "map ev_time entered = [1005, 1005, 1005, 1010, 1010, 1010, 1015, 1015, 1015]"
    by (simp add: sel real_ops_sel upt_rec numeral_3_eq_3)
  with st r sc show ?thesis
    by (intro conjI exI [of _ entered])
qed

end
